theory Spec2Isabelle
  imports Complex_Main
begin

section \<open>Simulated execution venue (execution/broker.py)\<close>

text \<open>
  Conventions of the embedding.
  \<^item> A Python \<open>float\<close> is a \<open>real\<close>: the arithmetic of the source is read exactly,
    rounding and the IEEE special values are outside the model.
  \<^item> \<open>Optional[float]\<close> is \<open>real option\<close>; the strings the source compares
    (\<open>"COMPRA"\<close>, \<open>"market"\<close>) stay strings, so the \<open>else\<close> branches cover
    every other string exactly as in the source.
  \<^item> The position dictionaries become records with one field per key. The wall-clock
    entries (\<open>datetime.now()\<close>) and the logger calls of the venue are left out: no
    function of the venue reads them back.
  \<^item> Mutation of \<open>self\<close> is explicit state passing: every method takes the venue and
    returns its result together with the venue afterwards.
\<close>

subsection \<open>Data\<close>

text \<open>The exceptions that the modelled code raises.\<close>

datatype py_error = ValueError | ZeroDivisionError | NameError

text \<open>\<open>class Orden\<close> (a dataclass); \<open>expiracion\<close> is a timestamp and is left out.\<close>

record orden =
  ord_simbolo :: string
  ord_tipo :: string
  ord_volumen :: real
  ord_precio :: "real option"
  ord_stop_loss :: "real option"
  ord_take_profit :: "real option"
  ord_comentario :: string
  ord_magic :: int
  ord_desviacion :: int
  ord_tipo_orden :: string

text \<open>The dictionary \<open>posicion\<close> built by \<open>colocar_orden\<close>.\<close>

record posicion =
  pos_ticket :: int
  pos_simbolo :: string
  pos_tipo :: string
  pos_volumen :: real
  pos_precio_apertura :: real
  pos_precio_actual :: real
  pos_stop_loss :: "real option"
  pos_take_profit :: "real option"
  pos_comision :: real
  pos_swap :: real
  pos_beneficio :: real
  pos_comentario :: string
  pos_magic :: int
  pos_estado :: string

text \<open>
  A ledger entry is \<open>posicion.copy()\<close> with the key \<open>precio_cierre\<close> added (and
  \<open>beneficio\<close>, \<open>estado\<close> overwritten): the record of a position, extended.
\<close>

record operacion = posicion +
  op_precio_cierre :: real

text \<open>The dictionary \<open>orden_pendiente\<close> of a limit or stop order.\<close>

record pendiente =
  pen_ticket :: int
  pen_simbolo :: string
  pen_tipo :: string
  pen_volumen :: real
  pen_precio :: "real option"
  pen_stop_loss :: "real option"
  pen_take_profit :: "real option"
  pen_tipo_orden :: string
  pen_comentario :: string
  pen_magic :: int
  pen_estado :: string

text \<open>
  The texts of \<open>ResultadoOrden.mensaje\<close>; the formatted number or ticket of the
  f-string is the constructor's argument.
\<close>

datatype mensaje =
    Orden_ejecutada_en_simulador
  | Orden_pendiente_en_simulador
  | Posicion_cerrada_beneficio real
  | Posicion_no_encontrada int

record resultado_orden =
  res_exito :: bool
  res_ticket :: "int option"
  res_precio :: "real option"
  res_volumen :: "real option"
  res_mensaje :: mensaje

text \<open>The attributes of \<open>BrokerSimulado\<close>.\<close>

record broker_simulado =
  posiciones :: "posicion list"
  ordenes_pendientes :: "pendiente list"
  historial :: "operacion list"
  balance :: real
  equity :: real
  comision_por_lote :: real
  spread :: real

text \<open>The dictionary returned by \<open>obtener_estado_cuenta\<close> (its numeric entries).\<close>

record estado_cuenta =
  ec_balance :: real
  ec_equity :: real
  ec_margen :: real
  ec_margen_libre :: real
  ec_margen_nivel :: real
  ec_beneficio :: real
  ec_apalancamiento :: int

subsection \<open>Construction\<close>

text \<open>
  \<open>Orden(...)\<close>: the generated constructor stores the fields and runs
  \<open>__post_init__\<close>, which raises \<open>ValueError\<close> below the minimum volume.
\<close>

definition Orden_init :: "orden \<Rightarrow> py_error + orden" where
  "Orden_init campos = (if ord_volumen campos < 0.01 then Inl ValueError else Inr campos)"

text \<open>
  \<open>BrokerSimulado.__init__\<close>, from the three entries of \<open>config['backtesting']\<close>
  it reads: \<open>capital_inicial\<close>, \<open>comision_por_lote\<close>, \<open>spread_promedio\<close>.
\<close>

definition BrokerSimulado_init :: "real \<Rightarrow> real \<Rightarrow> real \<Rightarrow> broker_simulado" where
  "BrokerSimulado_init capital_inicial comision spread_promedio =
     \<lparr>posiciones = [], ordenes_pendientes = [], historial = [],
      balance = capital_inicial, equity = capital_inicial,
      comision_por_lote = comision, spread = spread_promedio / 10000\<rparr>"

subsection \<open>colocar\_orden\<close>

text \<open>
  \<open>orden.precio or 1.10000\<close>: Python's \<open>or\<close> yields the right operand when the left
  one is falsy, which for an \<open>Optional[float]\<close> is \<open>None\<close> and also \<open>0.0\<close>.
\<close>

definition precio_or :: "real option \<Rightarrow> real \<Rightarrow> real" where
  "precio_or p d = (case p of None \<Rightarrow> d | Some x \<Rightarrow> if x = 0 then d else x)"

text \<open>
  The body of the \<open>try\<close>. On the typed fields of the model no statement of it raises,
  so the \<open>except\<close> branch has no counterpart.
\<close>

definition colocar_orden :: "orden \<Rightarrow> broker_simulado \<Rightarrow> resultado_orden \<times> broker_simulado" where
  "colocar_orden orden b =
    (let ticket = int (length (historial b)) + 1000;
         comision = ord_volumen orden * comision_por_lote b
     in if ord_tipo_orden orden = ''market'' then
          (let precio_ejecucion =
                 (if ord_tipo orden = ''COMPRA''
                  then precio_or (ord_precio orden) 1.10000 + spread b / 2
                  else precio_or (ord_precio orden) 1.10000 - spread b / 2);
               posicion =
                 \<lparr>pos_ticket = ticket,
                  pos_simbolo = ord_simbolo orden,
                  pos_tipo = ord_tipo orden,
                  pos_volumen = ord_volumen orden,
                  pos_precio_apertura = precio_ejecucion,
                  pos_precio_actual = precio_ejecucion,
                  pos_stop_loss = ord_stop_loss orden,
                  pos_take_profit = ord_take_profit orden,
                  pos_comision = comision,
                  pos_swap = 0,
                  pos_beneficio = 0,
                  pos_comentario = ord_comentario orden,
                  pos_magic = ord_magic orden,
                  pos_estado = ''abierta''\<rparr>
           in (\<lparr>res_exito = True, res_ticket = Some ticket,
                res_precio = Some precio_ejecucion,
                res_volumen = Some (ord_volumen orden),
                res_mensaje = Orden_ejecutada_en_simulador\<rparr>,
               b\<lparr>posiciones := posiciones b @ [posicion],
                 balance := balance b - comision,
                 equity := balance b - comision\<rparr>))
        else
          (let orden_pendiente =
                 \<lparr>pen_ticket = ticket,
                  pen_simbolo = ord_simbolo orden,
                  pen_tipo = ord_tipo orden,
                  pen_volumen = ord_volumen orden,
                  pen_precio = ord_precio orden,
                  pen_stop_loss = ord_stop_loss orden,
                  pen_take_profit = ord_take_profit orden,
                  pen_tipo_orden = ord_tipo_orden orden,
                  pen_comentario = ord_comentario orden,
                  pen_magic = ord_magic orden,
                  pen_estado = ''pendiente''\<rparr>
           in (\<lparr>res_exito = True, res_ticket = Some ticket,
                res_precio = ord_precio orden,
                res_volumen = Some (ord_volumen orden),
                res_mensaje = Orden_pendiente_en_simulador\<rparr>,
               b\<lparr>ordenes_pendientes := ordenes_pendientes b @ [orden_pendiente]\<rparr>)))"

text \<open>
  An \<open>Orden\<close> exists only through its constructor, so placing an order is the
  construction followed by \<open>colocar_orden\<close> (as \<open>test_volumen_minimo\<close> and the
  driver, through \<open>RiskManager.preparar_orden\<close>, do). An exception of the
  constructor leaves the venue untouched.
\<close>

definition crear_y_colocar ::
  "orden \<Rightarrow> broker_simulado \<Rightarrow> (py_error + resultado_orden) \<times> broker_simulado" where
  "crear_y_colocar campos b =
     (case Orden_init campos of
        Inl e \<Rightarrow> (Inl e, b)
      | Inr orden \<Rightarrow> (Inr (fst (colocar_orden orden b)), snd (colocar_orden orden b)))"

subsection \<open>cerrar\_orden\<close>

text \<open>
  \<open>for i, posicion in enumerate(self.posiciones): if posicion['ticket'] == ticket\<close>:
  the index and the dictionary of the first position with that ticket.
\<close>

fun buscar_posicion :: "int \<Rightarrow> posicion list \<Rightarrow> nat \<Rightarrow> (nat \<times> posicion) option" where
  "buscar_posicion ticket [] i = None"
| "buscar_posicion ticket (p # ps) i =
     (if pos_ticket p = ticket then Some (i, p) else buscar_posicion ticket ps (Suc i))"

text \<open>\<open>self.posiciones.pop(i)\<close> for an index inside the list.\<close>

definition pop :: "nat \<Rightarrow> 'a list \<Rightarrow> 'a list" where
  "pop i xs = take i xs @ drop (Suc i) xs"

text \<open>
  The ledger entry: the copy of the position with \<open>precio_cierre\<close>, \<open>beneficio\<close>
  and \<open>estado\<close> set.
\<close>

definition registrar_operacion :: "posicion \<Rightarrow> real \<Rightarrow> real \<Rightarrow> operacion" where
  "registrar_operacion posicion precio_cierre beneficio_neto =
     posicion.extend
       (posicion\<lparr>pos_beneficio := beneficio_neto, pos_estado := ''cerrada''\<rparr>)
       (operacion.fields precio_cierre)"

text \<open>
  The parameter \<open>volumen\<close> is part of the signature and is never read by the body.
\<close>

definition cerrar_orden ::
  "int \<Rightarrow> real option \<Rightarrow> broker_simulado \<Rightarrow> resultado_orden \<times> broker_simulado" where
  "cerrar_orden ticket volumen b =
    (case buscar_posicion ticket (posiciones b) 0 of
       Some (i, posicion) \<Rightarrow>
         (let precio_cierre =
                (if pos_tipo posicion = ''COMPRA''
                 then pos_precio_actual posicion - spread b / 2
                 else pos_precio_actual posicion + spread b / 2);
              beneficio =
                (if pos_tipo posicion = ''COMPRA''
                 then (precio_cierre - pos_precio_apertura posicion) * pos_volumen posicion * 100000
                 else (pos_precio_apertura posicion - precio_cierre) * pos_volumen posicion * 100000);
              beneficio_neto = beneficio - pos_comision posicion
          in (\<lparr>res_exito = True, res_ticket = Some ticket,
               res_precio = Some precio_cierre,
               res_volumen = Some (pos_volumen posicion),
               res_mensaje = Posicion_cerrada_beneficio beneficio_neto\<rparr>,
              b\<lparr>balance := balance b + beneficio_neto,
                equity := balance b + beneficio_neto,
                historial := historial b @ [registrar_operacion posicion precio_cierre beneficio_neto],
                posiciones := pop i (posiciones b)\<rparr>))
     | None \<Rightarrow>
         (\<lparr>res_exito = False, res_ticket = None, res_precio = None, res_volumen = None,
           res_mensaje = Posicion_no_encontrada ticket\<rparr>, b))"

subsection \<open>obtener\_posiciones\_abiertas and obtener\_estado\_cuenta\<close>

text \<open>
  \<open>np.random.uniform(-0.0001, 0.0001)\<close>: the module imports no numpy and binds no name
  \<open>np\<close> (its imports are \<open>time\<close>, \<open>typing\<close>, \<open>datetime\<close>, \<open>dataclasses\<close>,
  \<open>loguru\<close>, \<open>MetaTrader5 as mt5\<close> and \<open>core.exceptions\<close>), so evaluating the
  expression raises \<open>NameError\<close>.
\<close>

definition np_random_uniform :: "real \<Rightarrow> real \<Rightarrow> py_error + real" where
  "np_random_uniform low high = Inl NameError"

text \<open>
  The loop over \<open>self.posiciones\<close>, which writes into the dictionaries of the list. The
  draw is the first statement of the body: when it raises, the dictionaries before the
  current one have been written and the current one and those after it have not. The
  result is the exception, if any, and the list as the loop leaves it.
\<close>

fun actualizar_posiciones :: "posicion list \<Rightarrow> py_error option \<times> posicion list" where
  "actualizar_posiciones [] = (None, [])"
| "actualizar_posiciones (p # ps) =
     (case np_random_uniform (- 0.0001) 0.0001 of
        Inl e \<Rightarrow> (Some e, p # ps)
      | Inr cambio \<Rightarrow>
          (let precio_actual = pos_precio_actual p + cambio;
               beneficio =
                 (if pos_tipo p = ''COMPRA''
                  then (precio_actual - pos_precio_apertura p) * pos_volumen p * 100000
                  else (pos_precio_apertura p - precio_actual) * pos_volumen p * 100000);
               p' = p\<lparr>pos_precio_actual := precio_actual,
                      pos_beneficio := beneficio - pos_comision p\<rparr>
           in (fst (actualizar_posiciones ps), p' # snd (actualizar_posiciones ps))))"

text \<open>
  The method has no \<open>try\<close>: an exception of the loop propagates to the caller, before
  \<open>equity\<close> is assigned. Otherwise \<open>equity\<close> becomes the balance plus the sum of the
  \<open>beneficio\<close> entries and the copy of the list is returned.
\<close>

definition obtener_posiciones_abiertas ::
  "broker_simulado \<Rightarrow> (py_error + posicion list) \<times> broker_simulado" where
  "obtener_posiciones_abiertas b =
    (case actualizar_posiciones (posiciones b) of
       (Some e, ps) \<Rightarrow> (Inl e, b\<lparr>posiciones := ps\<rparr>)
     | (None, ps) \<Rightarrow>
         (let beneficio_total = sum_list (map pos_beneficio ps)
          in (Inr ps, b\<lparr>posiciones := ps, equity := balance b + beneficio_total\<rparr>)))"

definition obtener_estado_cuenta :: "broker_simulado \<Rightarrow> estado_cuenta \<times> broker_simulado" where
  "obtener_estado_cuenta b =
    (let beneficio_total = sum_list (map pos_beneficio (posiciones b))
     in (\<lparr>ec_balance = balance b, ec_equity = equity b, ec_margen = 0,
          ec_margen_libre = 0, ec_margen_nivel = 0, ec_beneficio = beneficio_total,
          ec_apalancamiento = 100\<rparr>, b))"

subsection \<open>cerrar\<close>

text \<open>
  \<open>for posicion in self.posiciones.copy(): self.cerrar_orden(posicion['ticket'])\<close>:
  one close request per position of the snapshot, by ticket.
\<close>

definition cerrar :: "broker_simulado \<Rightarrow> broker_simulado" where
  "cerrar b =
     fold (\<lambda>posicion b'. snd (cerrar_orden (pos_ticket posicion) None b')) (posiciones b) b"

subsection \<open>The operations on the account\<close>

text \<open>
  The four methods of the venue that read or change the account, as values, and the
  venue after a call: the second component of the method's result, which after a call
  that raises is the venue as the exception leaves it.
\<close>

datatype operacion_venue =
    Colocar_orden orden
  | Cerrar_orden int "real option"
  | Obtener_posiciones_abiertas
  | Obtener_estado_cuenta

fun aplicar :: "operacion_venue \<Rightarrow> broker_simulado \<Rightarrow> broker_simulado" where
  "aplicar (Colocar_orden orden) b = snd (colocar_orden orden b)"
| "aplicar (Cerrar_orden ticket volumen) b = snd (cerrar_orden ticket volumen b)"
| "aplicar Obtener_posiciones_abiertas b = snd (obtener_posiciones_abiertas b)"
| "aplicar Obtener_estado_cuenta b = snd (obtener_estado_cuenta b)"

section \<open>Tick synthesizer (data/tick\_simulator.py)\<close>

text \<open>
  The data frame of candles is the list of its rows. A row has the five columns the
  simulator requires (typed fields, so the check for a missing column has no
  counterpart); \<open>_preparar_datos\<close> adds three columns, which extend the record.
  Timestamps are seconds, as exact reals. The column \<open>ticks_por_vela\<close> holds the
  result of \<open>np.clip(\<dots>, 5, 100)\<close> on integers and is kept as a natural number.
\<close>

record vela =
  vela_timestamp :: real
  vela_apertura :: real
  vela_alto :: real
  vela_bajo :: real
  vela_cierre :: real

record vela_preparada = vela +
  vela_rango :: real
  vela_volatilidad :: real
  vela_ticks_por_vela :: nat

text \<open>
  The dictionary \<open>tick\<close>. The simulator never sets a key \<open>simbolo\<close>; the backtest
  driver reads it with \<open>tick.get('simbolo')\<close>, so the key is an optional field that
  the simulator leaves \<open>None\<close>.
\<close>

record tick =
  tick_timestamp :: real
  tick_bid :: real
  tick_ask :: real
  tick_last :: real
  tick_volumen :: int
  tick_spread :: real
  tick_simbolo :: "string option"

text \<open>
  The attributes of \<open>TickSimulator\<close>. \<open>ticks_actuales\<close> does not exist before the
  first call of \<open>obtener_siguiente_tick\<close> or \<open>reset\<close> (\<open>hasattr\<close> is false):
  that is \<open>None\<close>.
\<close>

record tick_simulator =
  datos_velas :: "vela_preparada list"
  sim_spread :: real
  ticks_generados :: "tick list"
  indice_actual :: nat
  ticks_actuales :: "tick list option"
  tick_idx :: nat

text \<open>
  The two random sources of \<open>generar_ticks_para_vela\<close>, as parameters:
  \<open>az_ruido k i\<close> is the \<open>i\<close>-th number of \<open>np.random.normal\<close> and
  \<open>az_volumen k i\<close> the \<open>i\<close>-th \<open>np.random.randint(1, 10)\<close> drawn for candle \<open>k\<close>.
\<close>

record azar =
  az_ruido :: "nat \<Rightarrow> nat \<Rightarrow> real"
  az_volumen :: "nat \<Rightarrow> nat \<Rightarrow> int"

subsection \<open>\_preparar\_datos\<close>

text \<open>\<open>Series.mean()\<close> of a series with at least one row.\<close>

definition media :: "real list \<Rightarrow> real" where
  "media xs = sum_list xs / real (length xs)"

text \<open>
  \<open>rango.rolling(20).mean()\<close> at row \<open>i\<close>: undefined (NaN, here \<open>None\<close>) until the
  window holds 20 rows, then the mean of the rows \<open>i - 19 .. i\<close>.
\<close>

definition rolling_mean :: "nat \<Rightarrow> real list \<Rightarrow> nat \<Rightarrow> real option" where
  "rolling_mean w xs i =
     (if Suc i < w then None else Some (media (take w (drop (Suc i - w) xs))))"

text \<open>\<open>.fillna(m)\<close> on one entry.\<close>

definition fillna :: "real option \<Rightarrow> real \<Rightarrow> real" where
  "fillna x m = (case x of None \<Rightarrow> m | Some v \<Rightarrow> v)"

text \<open>\<open>.astype(int)\<close> truncates toward zero.\<close>

definition astype_int :: "real \<Rightarrow> int" where
  "astype_int x = (if 0 \<le> x then \<lfloor>x\<rfloor> else \<lceil>x\<rceil>)"

text \<open>\<open>np.clip(a, a_min, a_max)\<close> is \<open>minimum(a_max, maximum(a, a_min))\<close>.\<close>

definition clip :: "'a::linorder \<Rightarrow> 'a \<Rightarrow> 'a \<Rightarrow> 'a" where
  "clip a a_min a_max = min a_max (max a a_min)"

definition preparar_datos :: "vela list \<Rightarrow> vela_preparada list" where
  "preparar_datos velas =
    (let rango = map (\<lambda>v. vela_alto v - vela_bajo v) velas
     in map (\<lambda>i.
          (let volatilidad = fillna (rolling_mean 20 rango i) (media rango)
           in vela.extend (velas ! i)
                (vela_preparada.fields (rango ! i) volatilidad
                   (nat (clip (astype_int (volatilidad * 10000)) 5 100)))))
        [0..<length velas])"

definition TickSimulator_init :: "vela list \<Rightarrow> real \<Rightarrow> tick_simulator" where
  "TickSimulator_init velas spread0 =
     \<lparr>datos_velas = preparar_datos velas, sim_spread = spread0, ticks_generados = [],
      indice_actual = 0, ticks_actuales = None, tick_idx = 0\<rparr>"

subsection \<open>generar\_ticks\_para\_vela\<close>

text \<open>
  \<open>np.linspace(start, stop, num)\<close>: \<open>num\<close> evenly spaced samples with both ends
  included; a single sample is \<open>start\<close>.
\<close>

definition linspace :: "real \<Rightarrow> real \<Rightarrow> nat \<Rightarrow> real list" where
  "linspace start stop num =
     (if num = 1 then [start]
      else map (\<lambda>i. start + real i * ((stop - start) / real (num - 1))) [0..<num])"

text \<open>
  \<open>np.random.normal(0, scale, n)\<close> raises \<open>ValueError\<close> for a negative scale; that
  is the only statement of the method that can raise on a valid index.
\<close>

definition generar_ticks_para_vela ::
  "azar \<Rightarrow> tick_simulator \<Rightarrow> nat \<Rightarrow> py_error + tick list" where
  "generar_ticks_para_vela az s vela_idx =
    (if vela_idx \<ge> length (datos_velas s) then Inr []
     else
       (let vela = datos_velas s ! vela_idx;
            n = vela_ticks_por_vela vela;
            tiempo_inicio = vela_timestamp vela;
            precios = linspace (vela_apertura vela) (vela_cierre vela) n
        in if vela_volatilidad vela * 0.1 < 0 then Inl ValueError
           else
             (let precios_con_ruido =
                    map (\<lambda>i. clip (precios ! i + az_ruido az vela_idx i)
                                  (vela_bajo vela) (vela_alto vela)) [0..<n]
              in Inr (map (\<lambda>i.
                       (let bid = precios_con_ruido ! i;
                            ask = bid + sim_spread s
                        in \<lparr>tick_timestamp = tiempo_inicio + (real i * 60) / real n,
                            tick_bid = bid,
                            tick_ask = ask,
                            tick_last = (bid + ask) / 2,
                            tick_volumen = az_volumen az vela_idx i,
                            tick_spread = sim_spread s,
                            tick_simbolo = None\<rparr>)) [0..<n]))))"

subsection \<open>obtener\_siguiente\_tick, reset\<close>

text \<open>
  The method calls itself after moving to the next candle; \<open>indice_actual\<close> grows with
  every such call and the method returns once it reaches the number of candles. An
  exception of \<open>generar_ticks_para_vela\<close> propagates before \<open>ticks_actuales\<close> is
  assigned.
\<close>

function obtener_siguiente_tick ::
  "azar \<Rightarrow> tick_simulator \<Rightarrow> (py_error + tick option) \<times> tick_simulator" where
  "obtener_siguiente_tick az s =
    (if indice_actual s \<ge> length (datos_velas s) then (Inr None, s)
     else
       (case (if ticks_actuales s = None \<or> ticks_actuales s = Some []
              then (case generar_ticks_para_vela az s (indice_actual s) of
                      Inl e \<Rightarrow> Inl e
                    | Inr ts \<Rightarrow> Inr (s\<lparr>ticks_actuales := Some ts, tick_idx := 0\<rparr>))
              else Inr s) of
          Inl e \<Rightarrow> (Inl e, s)
        | Inr s1 \<Rightarrow>
            (let actuales = (case ticks_actuales s1 of Some ts \<Rightarrow> ts | None \<Rightarrow> [])
             in if tick_idx s1 < length actuales then
                  (let t = actuales ! tick_idx s1
                   in (Inr (Some t),
                       s1\<lparr>tick_idx := tick_idx s1 + 1,
                          ticks_generados := ticks_generados s1 @ [t]\<rparr>))
                else
                  obtener_siguiente_tick az
                    (s1\<lparr>indice_actual := indice_actual s1 + 1, ticks_actuales := Some []\<rparr>))))"
  by pat_completeness auto

termination
proof (relation "measure (\<lambda>(az, s). length (datos_velas s) - indice_actual s)", goal_cases)
  case 1
  show ?case by simp
next
  case (2 az s x2 x)
  then show ?case
    by (auto split: if_splits sum.splits)
qed

declare obtener_siguiente_tick.simps [simp del]

definition reset :: "tick_simulator \<Rightarrow> tick_simulator" where
  "reset s = s\<lparr>indice_actual := 0, ticks_actuales := Some [], tick_idx := 0,
              ticks_generados := []\<rparr>"

section \<open>Backtest driver (backtest/backtest\_engine.py)\<close>

text \<open>
  The attributes of \<open>BacktestEngine\<close> that the tick path and the finalization use.
  Two fields make effects of the source observable:
  \<^item> \<open>registro\<close> is the sequence of the two \<open>logger.debug\<close> lines of
    \<open>_verificar_sl_tp\<close>, one entry per close request, with the ticket;
  \<^item> \<open>refs\<close> names the dictionaries. \<open>obtener_posiciones_abiertas\<close> returns a copy
    of the list, not of the dictionaries in it, so the loop of
    \<open>_actualizar_precios_posiciones\<close> writes into the dictionaries the venue holds.
    The \<open>k\<close>-th dictionary of the snapshot is called \<open>k\<close>, and \<open>refs\<close> says, entry
    by entry, which dictionary each element of the venue's \<open>posiciones\<close> is.
\<close>

datatype evento = SL_alcanzado int | TP_alcanzado int

record punto_equity =
  pe_timestamp :: real
  pe_equity :: real
  pe_balance :: real

record resultados =
  operaciones :: "operacion list"
  metricas :: "(string \<times> real) list"
  equity_curve :: "punto_equity list"
  drawdowns :: "real list"

record backtest_engine =
  capital_inicial :: real
  broker :: broker_simulado
  resultados :: resultados
  refs :: "nat list"
  registro :: "evento list"

subsection \<open>\_verificar\_sl\_tp\<close>

text \<open>
  \<open>self.broker.cerrar_orden(ticket)\<close> as the driver sees it: the result is dropped,
  and the dictionary that \<open>pop(i)\<close> removes leaves \<open>refs\<close> at the same index.
\<close>

definition broker_cerrar_orden :: "int \<Rightarrow> backtest_engine \<Rightarrow> backtest_engine" where
  "broker_cerrar_orden ticket m =
     m\<lparr>broker := snd (cerrar_orden ticket None (broker m)),
       refs := (case buscar_posicion ticket (posiciones (broker m)) 0 of
                  Some (i, posicion) \<Rightarrow> pop i (refs m)
                | None \<Rightarrow> refs m)\<rparr>"

definition verificar_sl_tp :: "posicion \<Rightarrow> tick \<Rightarrow> backtest_engine \<Rightarrow> backtest_engine" where
  "verificar_sl_tp posicion tk m =
    (let precio_actual = tick_last tk
     in case pos_stop_loss posicion of
          None \<Rightarrow> m
        | Some stop_loss \<Rightarrow>
            (case pos_take_profit posicion of
               None \<Rightarrow> m
             | Some take_profit \<Rightarrow>
                 (let ticket = pos_ticket posicion
                  in if pos_tipo posicion = ''COMPRA'' then
                       (if precio_actual \<le> stop_loss then
                          (broker_cerrar_orden ticket m)
                            \<lparr>registro := registro m @ [SL_alcanzado ticket]\<rparr>
                        else if precio_actual \<ge> take_profit then
                          (broker_cerrar_orden ticket m)
                            \<lparr>registro := registro m @ [TP_alcanzado ticket]\<rparr>
                        else m)
                     else
                       (if precio_actual \<ge> stop_loss then
                          (broker_cerrar_orden ticket m)
                            \<lparr>registro := registro m @ [SL_alcanzado ticket]\<rparr>
                        else if precio_actual \<le> take_profit then
                          (broker_cerrar_orden ticket m)
                            \<lparr>registro := registro m @ [TP_alcanzado ticket]\<rparr>
                        else m))))"

subsection \<open>\_actualizar\_precios\_posiciones\<close>

text \<open>
  \<open>posicion['precio_actual'] = tick['last']\<close> on dictionary \<open>r\<close>: the element of the
  venue's list that is this dictionary changes; if the venue no longer holds it, only
  the loop's own reference sees the assignment.
\<close>

fun indice_ref :: "nat \<Rightarrow> nat list \<Rightarrow> nat \<Rightarrow> nat option" where
  "indice_ref r [] j = None"
| "indice_ref r (x # xs) j = (if x = r then Some j else indice_ref r xs (Suc j))"

definition asignar_precio_actual :: "nat \<Rightarrow> real \<Rightarrow> backtest_engine \<Rightarrow> backtest_engine" where
  "asignar_precio_actual r precio m =
     (case indice_ref r (refs m) 0 of
        None \<Rightarrow> m
      | Some j \<Rightarrow>
          m\<lparr>broker := (broker m)
              \<lparr>posiciones :=
                 (posiciones (broker m))
                   [j := (posiciones (broker m) ! j)\<lparr>pos_precio_actual := precio\<rparr>]\<rparr>\<rparr>)"

text \<open>
  The \<open>for\<close> loop over the snapshot, each dictionary with its name.
  \<open>posicion['simbolo'] == tick.get('simbolo')\<close> is false when the tick has no such key.
\<close>

fun bucle_posiciones :: "tick \<Rightarrow> (nat \<times> posicion) list \<Rightarrow> backtest_engine \<Rightarrow> backtest_engine" where
  "bucle_posiciones tk [] m = m"
| "bucle_posiciones tk ((r, posicion) # resto) m =
     (if Some (pos_simbolo posicion) = tick_simbolo tk then
        bucle_posiciones tk resto
          (verificar_sl_tp (posicion\<lparr>pos_precio_actual := tick_last tk\<rparr>) tk
             (asignar_precio_actual r (tick_last tk) m))
      else bucle_posiciones tk resto m)"

text \<open>
  The method starts with \<open>self.broker.obtener_posiciones_abiertas()\<close> and has no
  \<open>try\<close>: an exception of the venue ends it before the loop.
\<close>

definition actualizar_precios_posiciones ::
  "tick \<Rightarrow> backtest_engine \<Rightarrow> (py_error + unit) \<times> backtest_engine" where
  "actualizar_precios_posiciones tk m =
    (case obtener_posiciones_abiertas (broker m) of
       (Inl e, b') \<Rightarrow> (Inl e, m\<lparr>broker := b'\<rparr>)
     | (Inr posiciones0, b') \<Rightarrow>
         (Inr (),
          bucle_posiciones tk (zip [0..<length posiciones0] posiciones0)
            (m\<lparr>broker := b', refs := [0..<length posiciones0]\<rparr>)))"

subsection \<open>\_calcular\_metricas and \_finalizar\_backtest\<close>

text \<open>
  The series statistics of pandas and numpy, over the reals. They agree with the
  library wherever it divides by a nonzero number; where pandas would produce
  \<open>inf\<close> or \<open>NaN\<close> (a zero running maximum, a zero previous equity) the value of the
  model carries no meaning. \<open>Series.std()\<close> of fewer than two values is NaN: \<open>None\<close>.
\<close>

fun expanding_max_desde :: "real \<Rightarrow> real list \<Rightarrow> real list" where
  "expanding_max_desde m [] = []"
| "expanding_max_desde m (x # xs) = max m x # expanding_max_desde (max m x) xs"

definition expanding_max :: "real list \<Rightarrow> real list" where
  "expanding_max xs = (case xs of [] \<Rightarrow> [] | x # ys \<Rightarrow> x # expanding_max_desde x ys)"

fun series_min :: "real list \<Rightarrow> real" where
  "series_min [] = 0"
| "series_min [x] = x"
| "series_min (x # y # ys) = min x (series_min (y # ys))"

fun pct_change_dropna :: "real list \<Rightarrow> real list" where
  "pct_change_dropna (x # y # ys) = (y - x) / x # pct_change_dropna (y # ys)"
| "pct_change_dropna xs = []"

definition series_std :: "real list \<Rightarrow> real option" where
  "series_std xs =
     (if length xs < 2 then None
      else Some (sqrt (sum_list (map (\<lambda>x. (x - media xs)\<^sup>2) xs) / real (length xs - 1))))"

text \<open>The dictionary stored when there is no operation.\<close>

definition metricas_sin_operaciones :: "(string \<times> real) list" where
  "metricas_sin_operaciones =
     [(''total_operaciones'', 0), (''operaciones_ganadoras'', 0),
      (''operaciones_perdedoras'', 0), (''win_rate'', 0), (''beneficio_total'', 0),
      (''drawdown_maximo'', 0), (''sharpe_ratio'', 0), (''expectancy'', 0)]"

text \<open>
  The \<open>try\<close> body. The only statement that can raise is the Python division by
  \<open>self.capital_inicial\<close> inside the dictionary display; the \<open>except\<close> branch then
  stores the empty dictionary, and \<open>drawdowns\<close> keeps its old value.
\<close>

definition calcular_metricas :: "backtest_engine \<Rightarrow> backtest_engine" where
  "calcular_metricas m =
    (let ops = operaciones (resultados m)
     in if ops = [] then
          m\<lparr>resultados := (resultados m)\<lparr>metricas := metricas_sin_operaciones\<rparr>\<rparr>
        else
          (let total_operaciones = length ops;
               operaciones_ganadoras = filter (\<lambda>op. pos_beneficio op > 0) ops;
               operaciones_perdedoras = filter (\<lambda>op. pos_beneficio op < 0) ops;
               win_rate = real (length operaciones_ganadoras) / real total_operaciones * 100;
               beneficio_total = sum_list (map pos_beneficio ops);
               equity_series = map pe_equity (equity_curve (resultados m));
               rolling_max = expanding_max equity_series;
               drawdowns_serie =
                 map (\<lambda>(e, rm). (e - rm) / rm * 100) (zip equity_series rolling_max);
               drawdown_maximo =
                 (if length drawdowns_serie > 0 then \<bar>series_min drawdowns_serie\<bar> else 0);
               sharpe_ratio =
                 (if length (equity_curve (resultados m)) > 1 then
                    (let returns = pct_change_dropna equity_series
                     in case series_std returns of
                          None \<Rightarrow> 0
                        | Some sd \<Rightarrow>
                            if sd > 0 then (media returns / sd) * sqrt 252 else 0)
                  else 0);
               expectancy =
                 (if operaciones_ganadoras \<noteq> [] \<and> operaciones_perdedoras \<noteq> [] then
                    (let avg_ganancia = media (map pos_beneficio operaciones_ganadoras);
                         avg_perdida = \<bar>media (map pos_beneficio operaciones_perdedoras)\<bar>;
                         probabilidad_ganar =
                           real (length operaciones_ganadoras) / real total_operaciones
                     in probabilidad_ganar * avg_ganancia
                        - (1 - probabilidad_ganar) * avg_perdida)
                  else 0)
           in if capital_inicial m = 0 then
                m\<lparr>resultados := (resultados m)\<lparr>metricas := []\<rparr>\<rparr>
              else
                m\<lparr>resultados := (resultados m)
                    \<lparr>metricas :=
                       [(''total_operaciones'', real total_operaciones),
                        (''operaciones_ganadoras'', real (length operaciones_ganadoras)),
                        (''operaciones_perdedoras'', real (length operaciones_perdedoras)),
                        (''win_rate'', win_rate),
                        (''beneficio_total'', beneficio_total),
                        (''drawdown_maximo'', drawdown_maximo),
                        (''sharpe_ratio'', sharpe_ratio),
                        (''expectancy'', expectancy),
                        (''retorno_total'', beneficio_total / capital_inicial m * 100),
                        (''retorno_anualizado'',
                           beneficio_total / capital_inicial m * 100
                           * (252 / real (length ops)))],
                     drawdowns := drawdowns_serie\<rparr>\<rparr>))"

text \<open>
  \<open>_finalizar_backtest\<close> up to the metrics; the report written afterwards is another
  component (\<open>BacktestReporter\<close>).
\<close>

definition finalizar_backtest :: "backtest_engine \<Rightarrow> backtest_engine" where
  "finalizar_backtest m =
    (let b = cerrar (broker m);
         historial0 = historial b
     in calcular_metricas
          (m\<lparr>broker := b, resultados := (resultados m)\<lparr>operaciones := historial0\<rparr>\<rparr>))"

section \<open>The stop-loss and take-profit rule in the words of the specification\<close>

text \<open>
  Written from the specification (4.3, step 2), to be compared with the driver: with
  both levels set, a BUY closes on its stop-loss when \<open>price \<le> stop_loss\<close>, else on
  its take-profit when \<open>price \<ge> take_profit\<close>; a SELL closes on its stop-loss when
  \<open>price \<ge> stop_loss\<close>, else on its take-profit when \<open>price \<le> take_profit\<close>; with a
  level unset nothing closes. The result is the close the rule asks for, if any.
\<close>

definition spec_cierre :: "posicion \<Rightarrow> real \<Rightarrow> evento option" where
  "spec_cierre p price =
     (case (pos_stop_loss p, pos_take_profit p) of
        (Some sl, Some tp) \<Rightarrow>
          if pos_tipo p = ''COMPRA'' then
            (if price \<le> sl then Some (SL_alcanzado (pos_ticket p))
             else if price \<ge> tp then Some (TP_alcanzado (pos_ticket p))
             else None)
          else
            (if price \<ge> sl then Some (SL_alcanzado (pos_ticket p))
             else if price \<le> tp then Some (TP_alcanzado (pos_ticket p))
             else None)
      | _ \<Rightarrow> None)"

text \<open>
  The closes the rule asks for on one tick: the open positions of the tick's symbol, in
  order, each with at most one close.
\<close>

definition spec_cierres_tick :: "tick \<Rightarrow> posicion list \<Rightarrow> evento list" where
  "spec_cierres_tick tk ps =
     concat (map (\<lambda>p. case spec_cierre p (tick_last tk) of None \<Rightarrow> [] | Some e \<Rightarrow> [e])
                 (filter (\<lambda>p. Some (pos_simbolo p) = tick_simbolo tk) ps))"

section \<open>Concrete scenarios\<close>

text \<open>
  The order of the scenarios of the test suite: a market order on EURUSD without
  stop-loss and take-profit, with the given side, volume and requested price.
\<close>

definition orden_ejemplo :: "string \<Rightarrow> real \<Rightarrow> real option \<Rightarrow> orden" where
  "orden_ejemplo tipo vol precio =
     \<lparr>ord_simbolo = ''EURUSD'', ord_tipo = tipo, ord_volumen = vol, ord_precio = precio,
      ord_stop_loss = None, ord_take_profit = None, ord_comentario = [],
      ord_magic = 234000, ord_desviacion = 10, ord_tipo_orden = ''market''\<rparr>"

text \<open>
  An open position on EURUSD with the given ticket, side, volume, prices, levels and
  commission.
\<close>

definition posicion_ejemplo ::
  "int \<Rightarrow> string \<Rightarrow> real \<Rightarrow> real \<Rightarrow> real \<Rightarrow> real option \<Rightarrow> real option \<Rightarrow> real \<Rightarrow> posicion" where
  "posicion_ejemplo ticket tipo vol apertura actual sl tp comision =
     \<lparr>pos_ticket = ticket, pos_simbolo = ''EURUSD'', pos_tipo = tipo, pos_volumen = vol,
      pos_precio_apertura = apertura, pos_precio_actual = actual, pos_stop_loss = sl,
      pos_take_profit = tp, pos_comision = comision, pos_swap = 0, pos_beneficio = 0,
      pos_comentario = [], pos_magic = 234000, pos_estado = ''abierta''\<rparr>"

text \<open>
  A tick of EURUSD at the given last price, and a driver whose venue holds the given
  open positions.
\<close>

definition tick_ejemplo :: "real \<Rightarrow> tick" where
  "tick_ejemplo precio =
     \<lparr>tick_timestamp = 0, tick_bid = precio - 0.0001, tick_ask = precio + 0.0001,
      tick_last = precio, tick_volumen = 1, tick_spread = 0.0002,
      tick_simbolo = Some ''EURUSD''\<rparr>"

definition motor_ejemplo :: "posicion list \<Rightarrow> backtest_engine" where
  "motor_ejemplo ps =
     \<lparr>capital_inicial = 10000,
      broker = (BrokerSimulado_init 10000 2.5 2)\<lparr>posiciones := ps\<rparr>,
      resultados = \<lparr>operaciones = [], metricas = [], equity_curve = [], drawdowns = []\<rparr>,
      refs = [], registro = []\<rparr>"

text \<open>
  A candle with range 0.0003 (five ticks), and random sources whose noise pushes the
  first tick above the candle, the second below it, and leaves the others alone.
\<close>

definition vela_ejemplo :: vela where
  "vela_ejemplo = \<lparr>vela_timestamp = 0, vela_apertura = 1.1000, vela_alto = 1.1002,
                    vela_bajo = 1.0999, vela_cierre = 1.1001\<rparr>"

definition azar_ejemplo :: azar where
  "azar_ejemplo = \<lparr>az_ruido = (\<lambda>k i. if i = 0 then 1 else if i = 1 then - 1 else 0),
                    az_volumen = (\<lambda>k i. 1)\<rparr>"

section \<open>Properties of the venue\<close>

subsection \<open>Auxiliary facts\<close>

lemma buscar_posicion_primera:
  "\<forall>q\<in>set pre. pos_ticket q \<noteq> t \<Longrightarrow> pos_ticket p = t \<Longrightarrow>
   buscar_posicion t (pre @ p # post) i = Some (i + length pre, p)"
  by (induction pre arbitrary: i) auto

lemma pop_append: "pop (length pre) (pre @ p # post) = pre @ post"
  by (simp add: pop_def)

lemma registrar_operacion_simps:
  "pos_beneficio (registrar_operacion p c n) = n"
  "op_precio_cierre (registrar_operacion p c n) = c"
  "pos_estado (registrar_operacion p c n) = ''cerrada''"
  "pos_ticket (registrar_operacion p c n) = pos_ticket p"
  "pos_volumen (registrar_operacion p c n) = pos_volumen p"
  "pos_precio_apertura (registrar_operacion p c n) = pos_precio_apertura p"
  "pos_comision (registrar_operacion p c n) = pos_comision p"
  "pos_tipo (registrar_operacion p c n) = pos_tipo p"
  by (simp_all add: registrar_operacion_def posicion.defs operacion.defs)

text \<open>
  What \<open>cerrar_orden\<close> does to the first position that carries the ticket, whatever
  the \<open>volumen\<close> argument.
\<close>

lemma cerrar_orden_primera:
  assumes "posiciones b = pre @ p # post"
    and "\<forall>q\<in>set pre. pos_ticket q \<noteq> t"
    and "pos_ticket p = t"
  shows "cerrar_orden t v b =
    (let precio_cierre =
           (if pos_tipo p = ''COMPRA''
            then pos_precio_actual p - spread b / 2
            else pos_precio_actual p + spread b / 2);
         beneficio =
           (if pos_tipo p = ''COMPRA''
            then (precio_cierre - pos_precio_apertura p) * pos_volumen p * 100000
            else (pos_precio_apertura p - precio_cierre) * pos_volumen p * 100000);
         beneficio_neto = beneficio - pos_comision p
     in (\<lparr>res_exito = True, res_ticket = Some t,
          res_precio = Some precio_cierre,
          res_volumen = Some (pos_volumen p),
          res_mensaje = Posicion_cerrada_beneficio beneficio_neto\<rparr>,
         b\<lparr>balance := balance b + beneficio_neto,
           equity := balance b + beneficio_neto,
           historial := historial b @ [registrar_operacion p precio_cierre beneficio_neto],
           posiciones := pre @ post\<rparr>))"
  using buscar_posicion_primera[OF assms(2,3), of post 0] assms(1)
  by (simp add: cerrar_orden_def pop_append Let_def)

subsection \<open>Closing a position\<close>

text \<open>
  Claim C1. Let \<open>p\<close> be the open position that \<open>cerrar_orden\<close> finds for the ticket
  (the first one in the list that carries it). For a BUY (\<open>COMPRA\<close>) the close price is
  the current price minus half the spread and the net profit is
  \<open>(close_price - open_price) * volume * 100000 - commission\<close>; for a SELL (any other
  side) the close price is the current price plus half the spread and the net profit
  is \<open>(open_price - close_price) * volume * 100000 - commission\<close>. The call succeeds,
  the net profit is added to the balance, the trade is appended to the ledger with that
  close price and profit, and \<open>p\<close> leaves the open positions, the others staying in
  order.
\<close>

theorem C1_cerrar_orden:
  assumes "posiciones b = pre @ p # post"
    and "\<forall>q\<in>set pre. pos_ticket q \<noteq> t"
    and "pos_ticket p = t"
  shows "let close_price = (if pos_tipo p = ''COMPRA''
                            then pos_precio_actual p - spread b / 2
                            else pos_precio_actual p + spread b / 2);
             net_pnl = (if pos_tipo p = ''COMPRA''
                        then (close_price - pos_precio_apertura p) * pos_volumen p * 100000
                        else (pos_precio_apertura p - close_price) * pos_volumen p * 100000)
                       - pos_comision p;
             r = fst (cerrar_orden t v b);
             b' = snd (cerrar_orden t v b)
         in res_exito r \<and> res_precio r = Some close_price
            \<and> res_mensaje r = Posicion_cerrada_beneficio net_pnl
            \<and> balance b' = balance b + net_pnl
            \<and> historial b' = historial b @ [registrar_operacion p close_price net_pnl]
            \<and> pos_beneficio (last (historial b')) = net_pnl
            \<and> op_precio_cierre (last (historial b')) = close_price
            \<and> pos_ticket (last (historial b')) = t
            \<and> posiciones b' = pre @ post"
  using assms(3)
  by (simp add: cerrar_orden_primera[OF assms] Let_def registrar_operacion_simps)

text \<open>
  The scenario of the claim: a 0.1-lot BUY opened at 1.10010 with commission 0.25 and
  spread 0.0002 is closed at the current price 1.10500: close price 1.10490, net
  profit 47.75, balance 10047.50 from 9999.75.
\<close>

theorem C1_cerrar_orden_witness:
  "let p = posicion_ejemplo 1000 ''COMPRA'' 0.1 1.10010 1.10500 None None 0.25;
       b = (BrokerSimulado_init 10000 2.5 2)
             \<lparr>posiciones := [p], balance := 9999.75, equity := 9999.75\<rparr>;
       r = fst (cerrar_orden 1000 None b);
       b' = snd (cerrar_orden 1000 None b)
   in posiciones b = [] @ p # [] \<and> pos_ticket p = 1000 \<and> spread b = 0.0002
      \<and> res_exito r \<and> res_precio r = Some 1.10490
      \<and> res_mensaje r = Posicion_cerrada_beneficio 47.75
      \<and> pos_beneficio (last (historial b')) = 47.75
      \<and> balance b' = 10047.50
      \<and> posiciones b' = []"
  using C1_cerrar_orden[of
      "(BrokerSimulado_init 10000 2.5 2)
         \<lparr>posiciones := [posicion_ejemplo 1000 ''COMPRA'' 0.1 1.10010 1.10500 None None 0.25],
          balance := 9999.75, equity := 9999.75\<rparr>"
      "[]" "posicion_ejemplo 1000 ''COMPRA'' 0.1 1.10010 1.10500 None None 0.25" "[]" 1000 None]
  by (simp add: BrokerSimulado_init_def posicion_ejemplo_def Let_def registrar_operacion_simps)

text \<open>
  Claim C10. Whatever volume is passed to \<open>cerrar_orden\<close>, also one smaller than the
  position's, the call is the one without a volume: the whole position leaves the open
  positions, the profit is computed over the position's full volume, and the volume
  reported in the result is the position's full volume.
\<close>

theorem C10_volumen_ignorado:
  assumes "posiciones b = pre @ p # post"
    and "\<forall>q\<in>set pre. pos_ticket q \<noteq> t"
    and "pos_ticket p = t"
  shows "cerrar_orden t (Some v) b = cerrar_orden t None b
       \<and> posiciones (snd (cerrar_orden t (Some v) b)) = pre @ post
       \<and> res_volumen (fst (cerrar_orden t (Some v) b)) = Some (pos_volumen p)
       \<and> pos_volumen (last (historial (snd (cerrar_orden t (Some v) b)))) = pos_volumen p
       \<and> pos_beneficio (last (historial (snd (cerrar_orden t (Some v) b)))) =
           (if pos_tipo p = ''COMPRA''
            then (pos_precio_actual p - spread b / 2 - pos_precio_apertura p)
                 * pos_volumen p * 100000
            else (pos_precio_apertura p - (pos_precio_actual p + spread b / 2))
                 * pos_volumen p * 100000)
           - pos_comision p"
  by (simp add: cerrar_orden_primera[OF assms] Let_def registrar_operacion_simps)

text \<open>
  A request to close 0.04 of a 0.1-lot position closes all of it: the result reports
  0.1 and the profit 47.75 is the one of the full volume.
\<close>

theorem C10_volumen_ignorado_witness:
  "let p = posicion_ejemplo 1000 ''COMPRA'' 0.1 1.10010 1.10500 None None 0.25;
       b = (BrokerSimulado_init 10000 2.5 2)
             \<lparr>posiciones := [p], balance := 9999.75, equity := 9999.75\<rparr>;
       r = fst (cerrar_orden 1000 (Some 0.04) b);
       b' = snd (cerrar_orden 1000 (Some 0.04) b)
   in posiciones b = [] @ p # [] \<and> pos_ticket p = 1000
      \<and> posiciones b' = []
      \<and> res_volumen r = Some 0.1
      \<and> pos_beneficio (last (historial b')) = 47.75"
  using C10_volumen_ignorado[of
      "(BrokerSimulado_init 10000 2.5 2)
         \<lparr>posiciones := [posicion_ejemplo 1000 ''COMPRA'' 0.1 1.10010 1.10500 None None 0.25],
          balance := 9999.75, equity := 9999.75\<rparr>"
      "[]" "posicion_ejemplo 1000 ''COMPRA'' 0.1 1.10010 1.10500 None None 0.25" "[]" 1000 "0.04"]
  by (simp add: BrokerSimulado_init_def posicion_ejemplo_def Let_def cerrar_orden_def pop_def
      registrar_operacion_simps)

subsection \<open>Placing an order\<close>

text \<open>
  Claim C3, amended. For every market order whose requested price is not 0,
  \<open>colocar_orden\<close> fills a BUY (\<open>COMPRA\<close>) at the requested price plus half the spread
  and a SELL (any other side) at the requested price minus half the spread, takes
  \<open>volume * commission_per_lot\<close> from the balance, appends exactly one position with
  that fill price, volume and commission to the open positions, and returns success
  with the assigned ticket. (A requested price of 0 counts as absent, see the
  counterexample below.)
\<close>

theorem C3_colocar_orden_market:
  assumes "ord_tipo_orden orden = ''market''"
    and "ord_precio orden = Some requested_price"
    and "requested_price \<noteq> 0"
  shows "let fill = (if ord_tipo orden = ''COMPRA''
                     then requested_price + spread b / 2
                     else requested_price - spread b / 2);
             ticket = int (length (historial b)) + 1000;
             r = fst (colocar_orden orden b);
             b' = snd (colocar_orden orden b)
         in res_exito r \<and> res_ticket r = Some ticket \<and> res_precio r = Some fill
            \<and> res_volumen r = Some (ord_volumen orden)
            \<and> balance b' = balance b - ord_volumen orden * comision_por_lote b
            \<and> length (posiciones b') = Suc (length (posiciones b))
            \<and> butlast (posiciones b') = posiciones b
            \<and> pos_ticket (last (posiciones b')) = ticket
            \<and> pos_precio_apertura (last (posiciones b')) = fill
            \<and> pos_volumen (last (posiciones b')) = ord_volumen orden
            \<and> pos_tipo (last (posiciones b')) = ord_tipo orden
            \<and> pos_comision (last (posiciones b')) = ord_volumen orden * comision_por_lote b
            \<and> historial b' = historial b
            \<and> ordenes_pendientes b' = ordenes_pendientes b"
  using assms by (simp add: colocar_orden_def precio_or_def Let_def)

text \<open>
  The scenario of the claim: capital 10000, commission 2.5 per lot, spread 2 pips
  (0.0002); a 0.1-lot BUY at 1.10000 fills at 1.10010 and leaves the balance 9999.75.
  The same order as a SELL fills at 1.09990.
\<close>

theorem C3_colocar_orden_market_witness:
  "let b = BrokerSimulado_init 10000 2.5 2;
       compra = orden_ejemplo ''COMPRA'' 0.1 (Some 1.10000);
       venta = orden_ejemplo ''VENTA'' 0.1 (Some 1.10000)
   in ord_tipo_orden compra = ''market'' \<and> ord_precio compra = Some 1.10000
      \<and> spread b = 0.0002
      \<and> res_exito (fst (colocar_orden compra b))
      \<and> res_ticket (fst (colocar_orden compra b)) = Some 1000
      \<and> res_precio (fst (colocar_orden compra b)) = Some 1.10010
      \<and> balance (snd (colocar_orden compra b)) = 9999.75
      \<and> map pos_precio_apertura (posiciones (snd (colocar_orden compra b))) = [1.10010]
      \<and> res_precio (fst (colocar_orden venta b)) = Some 1.09990"
  using C3_colocar_orden_market[of "orden_ejemplo ''COMPRA'' 0.1 (Some 1.10000)" "1.10000"
      "BrokerSimulado_init 10000 2.5 2"]
    C3_colocar_orden_market[of "orden_ejemplo ''VENTA'' 0.1 (Some 1.10000)" "1.10000"
      "BrokerSimulado_init 10000 2.5 2"]
  by (simp add: orden_ejemplo_def BrokerSimulado_init_def Let_def colocar_orden_def precio_or_def)

text \<open>
  The claim as stated fails for the requested price 0: \<open>orden.precio or 1.10000\<close>
  replaces it by 1.10000, so the BUY fills at 1.10010 and not at \<open>0 + spread/2\<close>.
\<close>

theorem C3_precio_cero_counterexample:
  "ord_tipo_orden (orden_ejemplo ''COMPRA'' 0.1 (Some 0)) = ''market''
   \<and> ord_precio (orden_ejemplo ''COMPRA'' 0.1 (Some 0)) = Some 0
   \<and> res_precio (fst (colocar_orden (orden_ejemplo ''COMPRA'' 0.1 (Some 0))
                        (BrokerSimulado_init 10000 2.5 2))) = Some 1.10010
   \<and> res_precio (fst (colocar_orden (orden_ejemplo ''COMPRA'' 0.1 (Some 0))
                        (BrokerSimulado_init 10000 2.5 2)))
       \<noteq> Some (0 + spread (BrokerSimulado_init 10000 2.5 2) / 2)"
  by (simp add: orden_ejemplo_def BrokerSimulado_init_def Let_def colocar_orden_def precio_or_def)

text \<open>
  Claim C8. An order whose volume is below 0.01 never reaches the venue: the
  constructor of \<open>Orden\<close> raises \<open>ValueError\<close>, so placing it fails, no position
  and no pending order is created, and the balance is unchanged. The volume is not
  replaced by the minimum.
\<close>

theorem C8_volumen_minimo:
  assumes "ord_volumen campos < 0.01"
  shows "Orden_init campos = Inl ValueError
       \<and> crear_y_colocar campos b = (Inl ValueError, b)
       \<and> posiciones (snd (crear_y_colocar campos b)) = posiciones b
       \<and> ordenes_pendientes (snd (crear_y_colocar campos b)) = ordenes_pendientes b
       \<and> balance (snd (crear_y_colocar campos b)) = balance b"
  using assms by (simp add: Orden_init_def crear_y_colocar_def)

text \<open>The scenario of the test suite: volume 0.001 on a fresh venue.\<close>

theorem C8_volumen_minimo_witness:
  "ord_volumen (orden_ejemplo ''COMPRA'' 0.001 None) < 0.01
   \<and> crear_y_colocar (orden_ejemplo ''COMPRA'' 0.001 None) (BrokerSimulado_init 10000 2.5 2)
       = (Inl ValueError, BrokerSimulado_init 10000 2.5 2)
   \<and> posiciones (snd (crear_y_colocar (orden_ejemplo ''COMPRA'' 0.001 None)
                        (BrokerSimulado_init 10000 2.5 2))) = []
   \<and> balance (snd (crear_y_colocar (orden_ejemplo ''COMPRA'' 0.001 None)
                     (BrokerSimulado_init 10000 2.5 2))) = 10000"
  using C8_volumen_minimo[of "orden_ejemplo ''COMPRA'' 0.001 None" "BrokerSimulado_init 10000 2.5 2"]
  by (simp add: orden_ejemplo_def BrokerSimulado_init_def)

subsection \<open>Tickets and equity\<close>

text \<open>
  Claim C4 fails on the code. The ticket is \<open>len(self.historial) + 1000\<close>, and the
  ledger only grows when a position is closed: two orders placed on a fresh venue
  without a close in between both get ticket 1000, and the two open positions (they
  differ in their open price) carry the same ticket.
\<close>

theorem C4_tickets_duplicados:
  "let b0 = BrokerSimulado_init 10000 2.5 2;
       r1 = fst (colocar_orden (orden_ejemplo ''COMPRA'' 0.1 (Some 1.100)) b0);
       b1 = snd (colocar_orden (orden_ejemplo ''COMPRA'' 0.1 (Some 1.100)) b0);
       r2 = fst (colocar_orden (orden_ejemplo ''COMPRA'' 0.1 (Some 1.101)) b1);
       b2 = snd (colocar_orden (orden_ejemplo ''COMPRA'' 0.1 (Some 1.101)) b1)
   in res_ticket r1 = Some 1000 \<and> res_ticket r2 = Some 1000
      \<and> map pos_ticket (posiciones b2) = [1000, 1000]
      \<and> map pos_precio_apertura (posiciones b2) = [1.1001, 1.1011]
      \<and> posiciones b2 ! 0 \<noteq> posiciones b2 ! 1"
  by (simp add: orden_ejemplo_def BrokerSimulado_init_def Let_def colocar_orden_def precio_or_def)

text \<open>
  The refresh of \<open>obtener_posiciones_abiertas\<close> returns only on a venue without open
  positions: with a position open the draw raises \<open>NameError\<close> and the venue is as
  before. So the \<open>beneficio\<close> of an open position stays at the 0 that \<open>colocar_orden\<close>
  gives it, and \<open>equity = balance\<close> is kept by every operation.
\<close>

lemma obtener_posiciones_abiertas_vacia:
  "posiciones b = [] \<Longrightarrow>
   obtener_posiciones_abiertas b = (Inr [], b\<lparr>equity := balance b\<rparr>)"
  by (simp add: obtener_posiciones_abiertas_def)

lemma obtener_posiciones_abiertas_NameError:
  "posiciones b \<noteq> [] \<Longrightarrow> obtener_posiciones_abiertas b = (Inl NameError, b)"
  by (cases "posiciones b") (simp_all add: obtener_posiciones_abiertas_def np_random_uniform_def)

lemma set_pop: "set (pop i xs) \<subseteq> set xs"
  by (auto simp add: pop_def dest: in_set_takeD in_set_dropD)

lemma aplicar_invariante:
  assumes "equity b = balance b" and "\<forall>p\<in>set (posiciones b). pos_beneficio p = 0"
  shows "equity (aplicar op b) = balance (aplicar op b)"
    and "\<forall>p\<in>set (posiciones (aplicar op b)). pos_beneficio p = 0"
proof -
  have "equity (aplicar op b) = balance (aplicar op b)
        \<and> (\<forall>p\<in>set (posiciones (aplicar op b)). pos_beneficio p = 0)"
  proof (cases op)
    case (Colocar_orden orden)
    then show ?thesis using assms by (simp add: colocar_orden_def Let_def)
  next
    case (Cerrar_orden ticket volumen)
    then show ?thesis using assms set_pop[of _ "posiciones b"]
      by (auto simp add: cerrar_orden_def Let_def split: option.splits)
  next
    case Obtener_posiciones_abiertas
    show ?thesis
    proof (cases "posiciones b = []")
      case True
      then show ?thesis
        using Obtener_posiciones_abiertas by (simp add: obtener_posiciones_abiertas_vacia)
    next
      case False
      then show ?thesis
        using Obtener_posiciones_abiertas assms
        by (simp add: obtener_posiciones_abiertas_NameError)
    qed
  next
    case Obtener_estado_cuenta
    then show ?thesis using assms by (simp add: obtener_estado_cuenta_def Let_def)
  qed
  then show "equity (aplicar op b) = balance (aplicar op b)"
    and "\<forall>p\<in>set (posiciones (aplicar op b)). pos_beneficio p = 0"
    by simp_all
qed

lemma fold_aplicar_invariante:
  assumes "equity b = balance b" and "\<forall>p\<in>set (posiciones b). pos_beneficio p = 0"
  shows "equity (fold aplicar ops b) = balance (fold aplicar ops b)
       \<and> (\<forall>p\<in>set (posiciones (fold aplicar ops b)). pos_beneficio p = 0)"
  using assms
proof (induction ops arbitrary: b)
  case Nil
  then show ?case by simp
next
  case (Cons op ops)
  show ?case
    using Cons.IH[OF aplicar_invariante[OF Cons.prems, of op]] by simp
qed

lemma sum_list_ceros: "\<forall>p\<in>set ps. pos_beneficio p = 0 \<Longrightarrow> sum_list (map pos_beneficio ps) = 0"
  by (induction ps) simp_all

text \<open>
  Claim C2. Start from a venue as its constructor leaves it and call \<open>colocar_orden\<close>,
  \<open>cerrar_orden\<close>, \<open>obtener_posiciones_abiertas\<close> and \<open>obtener_estado_cuenta\<close> in any
  order, any number of times, with any arguments. After every call equity is the
  balance plus the sum of the unrealized profit (\<open>beneficio\<close>) of the open positions,
  and equity equals the balance whenever no position is open.
\<close>

theorem C2_equity_invariante:
  "equity (fold aplicar ops (BrokerSimulado_init capital comision spread_promedio))
     = balance (fold aplicar ops (BrokerSimulado_init capital comision spread_promedio))
       + sum_list (map pos_beneficio
           (posiciones (fold aplicar ops (BrokerSimulado_init capital comision spread_promedio))))
   \<and> (posiciones (fold aplicar ops (BrokerSimulado_init capital comision spread_promedio)) = []
        \<longrightarrow> equity (fold aplicar ops (BrokerSimulado_init capital comision spread_promedio))
            = balance (fold aplicar ops (BrokerSimulado_init capital comision spread_promedio)))"
proof -
  let ?b0 = "BrokerSimulado_init capital comision spread_promedio"
  have "equity ?b0 = balance ?b0" and "\<forall>p\<in>set (posiciones ?b0). pos_beneficio p = 0"
    by (simp_all add: BrokerSimulado_init_def)
  then have inv: "equity (fold aplicar ops ?b0) = balance (fold aplicar ops ?b0)
       \<and> (\<forall>p\<in>set (posiciones (fold aplicar ops ?b0)). pos_beneficio p = 0)"
    by (rule fold_aplicar_invariante)
  then have "sum_list (map pos_beneficio (posiciones (fold aplicar ops ?b0))) = 0"
    by (simp add: sum_list_ceros)
  then show ?thesis using inv by simp
qed

text \<open>
  On a fresh venue (capital 10000, commission 2.5 per lot, spread 2 pips): place a BUY,
  ask for the open positions (the call raises \<open>NameError\<close>), place a second BUY, close
  ticket 1000, read the account. One position stays open with \<open>beneficio\<close> 0, and
  balance and equity are both 9998.25.
\<close>

theorem C2_equity_invariante_witness:
  "let ops = [Colocar_orden (orden_ejemplo ''COMPRA'' 0.1 (Some 1.10000)),
              Obtener_posiciones_abiertas,
              Colocar_orden (orden_ejemplo ''COMPRA'' 0.1 (Some 1.10000)),
              Cerrar_orden 1000 None,
              Obtener_estado_cuenta];
       b = fold aplicar ops (BrokerSimulado_init 10000 2.5 2)
   in map pos_beneficio (posiciones b) = [0]
      \<and> balance b = 9998.25
      \<and> equity b = 9998.25
      \<and> equity b = balance b + sum_list (map pos_beneficio (posiciones b))
      \<and> fst (obtener_posiciones_abiertas b) = Inl NameError
      \<and> posiciones (fold aplicar [Cerrar_orden 1000 None] b) = []
      \<and> equity (fold aplicar [Cerrar_orden 1000 None] b)
          = balance (fold aplicar [Cerrar_orden 1000 None] b)"
  using C2_equity_invariante[of
      "[Colocar_orden (orden_ejemplo ''COMPRA'' 0.1 (Some 1.10000)),
        Obtener_posiciones_abiertas,
        Colocar_orden (orden_ejemplo ''COMPRA'' 0.1 (Some 1.10000)),
        Cerrar_orden 1000 None,
        Obtener_estado_cuenta]" 10000 "2.5" 2]
    C2_equity_invariante[of
      "[Colocar_orden (orden_ejemplo ''COMPRA'' 0.1 (Some 1.10000)),
        Obtener_posiciones_abiertas,
        Colocar_orden (orden_ejemplo ''COMPRA'' 0.1 (Some 1.10000)),
        Cerrar_orden 1000 None,
        Obtener_estado_cuenta,
        Cerrar_orden 1000 None]" 10000 "2.5" 2]
  by (simp add: Let_def orden_ejemplo_def BrokerSimulado_init_def colocar_orden_def
      precio_or_def cerrar_orden_def pop_def obtener_estado_cuenta_def
      obtener_posiciones_abiertas_def np_random_uniform_def)

section \<open>Properties of the tick synthesizer\<close>

subsection \<open>Auxiliary facts\<close>

lemma length_preparar_datos [simp]: "length (preparar_datos velas) = length velas"
  by (simp add: preparar_datos_def Let_def)

lemma preparar_datos_nth:
  assumes "k < length velas"
  shows "vela_bajo (preparar_datos velas ! k) = vela_bajo (velas ! k)"
    and "vela_alto (preparar_datos velas ! k) = vela_alto (velas ! k)"
    and "vela_apertura (preparar_datos velas ! k) = vela_apertura (velas ! k)"
    and "vela_cierre (preparar_datos velas ! k) = vela_cierre (velas ! k)"
    and "vela_timestamp (preparar_datos velas ! k) = vela_timestamp (velas ! k)"
    and "vela_volatilidad (preparar_datos velas ! k) =
           fillna (rolling_mean 20 (map (\<lambda>v. vela_alto v - vela_bajo v) velas) k)
                  (media (map (\<lambda>v. vela_alto v - vela_bajo v) velas))"
    and "vela_ticks_por_vela (preparar_datos velas ! k) =
           nat (clip (astype_int (vela_volatilidad (preparar_datos velas ! k) * 10000)) 5 100)"
  using assms by (simp_all add: preparar_datos_def Let_def vela.defs vela_preparada.defs)

lemma ticks_por_vela_acotado:
  assumes "k < length velas"
  shows "5 \<le> vela_ticks_por_vela (preparar_datos velas ! k)"
    and "vela_ticks_por_vela (preparar_datos velas ! k) \<le> 100"
  using assms by (simp_all add: preparar_datos_nth(7) clip_def)

lemma media_no_negativa: "(\<forall>x\<in>set xs. 0 \<le> x) \<Longrightarrow> 0 \<le> media xs"
  by (simp add: media_def sum_list_nonneg)

lemma volatilidad_no_negativa:
  assumes "\<forall>v\<in>set velas. vela_bajo v \<le> vela_alto v" and "k < length velas"
  shows "0 \<le> vela_volatilidad (preparar_datos velas ! k)"
proof -
  let ?rango = "map (\<lambda>v. vela_alto v - vela_bajo v) velas"
  have r: "\<forall>x\<in>set ?rango. 0 \<le> x" using assms(1) by auto
  have "\<forall>x\<in>set (take 20 (drop (Suc k - 20) ?rango)). 0 \<le> x"
    using r by (meson in_set_dropD in_set_takeD)
  then have "0 \<le> media (take 20 (drop (Suc k - 20) ?rango))"
    by (rule media_no_negativa)
  moreover have "0 \<le> media ?rango" using r by (rule media_no_negativa)
  ultimately show ?thesis
    by (simp add: preparar_datos_nth(6)[OF assms(2)] fillna_def rolling_mean_def)
qed

lemma clip_acotado:
  fixes x :: real
  shows "clip x lo hi \<le> hi" and "lo \<le> hi \<Longrightarrow> lo \<le> clip x lo hi"
  by (simp_all add: clip_def)

lemma generar_ticks_exito:
  assumes "k < length (datos_velas s)" and "0 \<le> vela_volatilidad (datos_velas s ! k)"
  shows "\<exists>ticks. generar_ticks_para_vela az s k = Inr ticks
           \<and> length ticks = vela_ticks_por_vela (datos_velas s ! k)"
  using assms by (simp add: generar_ticks_para_vela_def Let_def)

lemma generar_ticks_en_rango:
  assumes "k < length (datos_velas s)"
    and "generar_ticks_para_vela az s k = Inr ticks"
    and "t \<in> set ticks"
  shows "tick_bid t \<le> vela_alto (datos_velas s ! k)"
    and "vela_bajo (datos_velas s ! k) \<le> vela_alto (datos_velas s ! k)
         \<Longrightarrow> vela_bajo (datos_velas s ! k) \<le> tick_bid t"
    and "tick_ask t = tick_bid t + sim_spread s"
    and "length ticks = vela_ticks_por_vela (datos_velas s ! k)"
  using assms
  by (auto simp add: generar_ticks_para_vela_def Let_def clip_acotado split: if_splits)


lemma obtener_agotado:
  "indice_actual s \<ge> length (datos_velas s) \<Longrightarrow> obtener_siguiente_tick az s = (Inr None, s)"
  by (subst obtener_siguiente_tick.simps) simp

lemma obtener_generar:
  assumes "indice_actual s < length (datos_velas s)"
    and "ticks_actuales s = None \<or> ticks_actuales s = Some []"
    and "generar_ticks_para_vela az s (indice_actual s) = Inr ts"
    and "ts \<noteq> []"
  shows "obtener_siguiente_tick az s =
           (Inr (Some (ts ! 0)),
            s\<lparr>ticks_actuales := Some ts, tick_idx := 1,
              ticks_generados := ticks_generados s @ [ts ! 0]\<rparr>)"
  using assms by (subst obtener_siguiente_tick.simps) (auto simp add: Let_def)

lemma obtener_siguiente:
  assumes "indice_actual s < length (datos_velas s)"
    and "ticks_actuales s = Some ts"
    and "tick_idx s < length ts"
  shows "obtener_siguiente_tick az s =
           (Inr (Some (ts ! tick_idx s)),
            s\<lparr>tick_idx := tick_idx s + 1,
              ticks_generados := ticks_generados s @ [ts ! tick_idx s]\<rparr>)"
  using assms by (subst obtener_siguiente_tick.simps) (auto simp add: Let_def)

lemma obtener_fin_vela:
  assumes "indice_actual s < length (datos_velas s)"
    and "ticks_actuales s = Some ts"
    and "ts \<noteq> []"
    and "\<not> tick_idx s < length ts"
  shows "obtener_siguiente_tick az s =
           obtener_siguiente_tick az
             (s\<lparr>indice_actual := indice_actual s + 1, ticks_actuales := Some []\<rparr>)"
  using assms by (subst obtener_siguiente_tick.simps) (auto simp add: Let_def)

lemma generar_depende:
  "datos_velas s' = datos_velas s \<Longrightarrow> sim_spread s' = sim_spread s \<Longrightarrow>
   generar_ticks_para_vela az s' k = generar_ticks_para_vela az s k"
  by (simp add: generar_ticks_para_vela_def Let_def)


text \<open>The simulator while it hands out the ticks \<open>ts\<close> of its only candle.\<close>

lemma una_vela_pasos:
  fixes s0 :: tick_simulator
  assumes d: "length (datos_velas s0) = 1"
    and i0: "indice_actual s0 = 0"
    and a0: "ticks_actuales s0 = None"
    and g0: "ticks_generados s0 = []"
    and gen: "generar_ticks_para_vela az s0 0 = Inr ts"
    and n: "ts \<noteq> []"
  shows "0 < k \<Longrightarrow> k \<le> length ts \<Longrightarrow>
         ((\<lambda>s. snd (obtener_siguiente_tick az s)) ^^ k) s0 =
           s0\<lparr>ticks_actuales := Some ts, tick_idx := k, ticks_generados := take k ts\<rparr>"
proof (induction k)
  case 0
  then show ?case by simp
next
  case (Suc k)
  show ?case
  proof (cases "k = 0")
    case True
    have "obtener_siguiente_tick az s0 =
            (Inr (Some (ts ! 0)),
             s0\<lparr>ticks_actuales := Some ts, tick_idx := 1,
                ticks_generados := ticks_generados s0 @ [ts ! 0]\<rparr>)"
      using d i0 a0 gen n by (intro obtener_generar) auto
    then show ?thesis using True g0 n by (simp add: take_Suc_conv_app_nth)
  next
    case False
    let ?s = "s0\<lparr>ticks_actuales := Some ts, tick_idx := k, ticks_generados := take k ts\<rparr>"
    have prev: "((\<lambda>s. snd (obtener_siguiente_tick az s)) ^^ k) s0 = ?s"
      using Suc False by simp
    have "obtener_siguiente_tick az ?s =
            (Inr (Some (ts ! tick_idx ?s)),
             ?s\<lparr>tick_idx := tick_idx ?s + 1,
                ticks_generados := ticks_generados ?s @ [ts ! tick_idx ?s]\<rparr>)"
      using d i0 Suc.prems by (intro obtener_siguiente) auto
    then show ?thesis using prev Suc.prems by (simp add: take_Suc_conv_app_nth)
  qed
qed


lemma una_vela_ultima:
  fixes s0 :: tick_simulator
  assumes d: "length (datos_velas s0) = 1"
    and i0: "indice_actual s0 = 0"
    and n: "ts \<noteq> []"
  shows "obtener_siguiente_tick az
           (s0\<lparr>ticks_actuales := Some ts, tick_idx := length ts, ticks_generados := ts\<rparr>) =
         (Inr None,
          s0\<lparr>ticks_actuales := Some [], tick_idx := length ts, ticks_generados := ts,
             indice_actual := 1\<rparr>)"
proof -
  let ?s = "s0\<lparr>ticks_actuales := Some ts, tick_idx := length ts, ticks_generados := ts\<rparr>"
  have "obtener_siguiente_tick az ?s =
          obtener_siguiente_tick az
            (?s\<lparr>indice_actual := indice_actual ?s + 1, ticks_actuales := Some []\<rparr>)"
    using d i0 n by (intro obtener_fin_vela[where ts = ts]) auto
  also have "\<dots> = (Inr None, ?s\<lparr>indice_actual := indice_actual ?s + 1, ticks_actuales := Some []\<rparr>)"
    using d i0 by (intro obtener_agotado) simp
  finally show ?thesis using i0 by simp
qed

lemma una_vela_despues:
  fixes s0 :: tick_simulator
  assumes d: "length (datos_velas s0) = 1"
    and i0: "indice_actual s0 = 0"
    and a0: "ticks_actuales s0 = None"
    and g0: "ticks_generados s0 = []"
    and gen: "generar_ticks_para_vela az s0 0 = Inr ts"
    and n: "ts \<noteq> []"
  shows "length ts < k \<Longrightarrow>
         ((\<lambda>s. snd (obtener_siguiente_tick az s)) ^^ k) s0 =
           s0\<lparr>ticks_actuales := Some [], tick_idx := length ts, ticks_generados := ts,
              indice_actual := 1\<rparr>"
proof (induction k)
  case 0
  then show ?case by simp
next
  case (Suc k)
  let ?paso = "\<lambda>s. snd (obtener_siguiente_tick az s)"
  let ?fin = "s0\<lparr>ticks_actuales := Some [], tick_idx := length ts, ticks_generados := ts,
                   indice_actual := 1\<rparr>"
  show ?case
  proof (cases "length ts = k")
    case True
    have "0 < k" using True n by auto
    then have "(?paso ^^ k) s0 =
                 s0\<lparr>ticks_actuales := Some ts, tick_idx := k, ticks_generados := take k ts\<rparr>"
      using una_vela_pasos[OF d i0 a0 g0 gen n, of k] True by simp
    then show ?thesis
      using una_vela_ultima[OF d i0 n, of az] True by simp
  next
    case False
    then have "(?paso ^^ k) s0 = ?fin" using Suc by simp
    moreover have "obtener_siguiente_tick az ?fin = (Inr None, ?fin)"
      using d by (intro obtener_agotado) simp
    ultimately show ?thesis by simp
  qed
qed

lemma una_vela_agotada:
  fixes s0 :: tick_simulator
  assumes d: "length (datos_velas s0) = 1"
    and i0: "indice_actual s0 = 0"
    and a0: "ticks_actuales s0 = None"
    and g0: "ticks_generados s0 = []"
    and gen: "generar_ticks_para_vela az s0 0 = Inr ts"
    and n: "ts \<noteq> []"
    and k: "length ts \<le> k"
  shows "fst (obtener_siguiente_tick az (((\<lambda>s. snd (obtener_siguiente_tick az s)) ^^ k) s0))
           = Inr None"
proof (cases "length ts = k")
  case True
  have "0 < k" using True n by auto
  then have "((\<lambda>s. snd (obtener_siguiente_tick az s)) ^^ k) s0 =
               s0\<lparr>ticks_actuales := Some ts, tick_idx := k, ticks_generados := take k ts\<rparr>"
    using una_vela_pasos[OF d i0 a0 g0 gen n, of k] True by simp
  then show ?thesis using una_vela_ultima[OF d i0 n, of az] True by simp
next
  case False
  then have "length ts < k" using k by simp
  then have "((\<lambda>s. snd (obtener_siguiente_tick az s)) ^^ k) s0 =
               s0\<lparr>ticks_actuales := Some [], tick_idx := length ts, ticks_generados := ts,
                  indice_actual := 1\<rparr>"
    by (rule una_vela_despues[OF d i0 a0 g0 gen n])
  then show ?thesis using d by (simp add: obtener_agotado)
qed

lemma una_vela_entrega:
  fixes s0 :: tick_simulator
  assumes d: "length (datos_velas s0) = 1"
    and i0: "indice_actual s0 = 0"
    and a0: "ticks_actuales s0 = None"
    and g0: "ticks_generados s0 = []"
    and gen: "generar_ticks_para_vela az s0 0 = Inr ts"
    and k: "k < length ts"
  shows "fst (obtener_siguiente_tick az (((\<lambda>s. snd (obtener_siguiente_tick az s)) ^^ k) s0))
           = Inr (Some (ts ! k))"
proof (cases "k = 0")
  case True
  have n: "ts \<noteq> []" using k by auto
  have "obtener_siguiente_tick az s0 =
          (Inr (Some (ts ! 0)),
           s0\<lparr>ticks_actuales := Some ts, tick_idx := 1,
              ticks_generados := ticks_generados s0 @ [ts ! 0]\<rparr>)"
    using d i0 a0 gen n by (intro obtener_generar) auto
  then show ?thesis using True by simp
next
  case False
  have n: "ts \<noteq> []" using k by auto
  let ?s = "s0\<lparr>ticks_actuales := Some ts, tick_idx := k, ticks_generados := take k ts\<rparr>"
  have prev: "((\<lambda>s. snd (obtener_siguiente_tick az s)) ^^ k) s0 = ?s"
    using una_vela_pasos[OF d i0 a0 g0 gen n, of k] False k by simp
  have "obtener_siguiente_tick az ?s =
          (Inr (Some (ts ! tick_idx ?s)),
           ?s\<lparr>tick_idx := tick_idx ?s + 1,
              ticks_generados := ticks_generados ?s @ [ts ! tick_idx ?s]\<rparr>)"
    using d i0 k by (intro obtener_siguiente) auto
  then show ?thesis using prev by simp
qed

lemma upt_0_5: "[0..<5] = [0, 1, 2, 3, 4::nat]"
  by code_simp

lemma preparar_vela_ejemplo:
  "preparar_datos [vela_ejemplo] =
     [\<lparr>vela_timestamp = 0, vela_apertura = 1.1000, vela_alto = 1.1002, vela_bajo = 1.0999,
       vela_cierre = 1.1001, vela_rango = 0.0003, vela_volatilidad = 0.0003,
       vela_ticks_por_vela = 5\<rparr>]"
  by (simp add: preparar_datos_def vela_ejemplo_def Let_def vela.defs vela_preparada.defs
      fillna_def rolling_mean_def media_def astype_int_def clip_def)

lemma bids_vela_ejemplo:
  "generar_ticks_para_vela azar_ejemplo (TickSimulator_init [vela_ejemplo] 0.0002) 0 = Inr ticks
   \<Longrightarrow> map tick_bid ticks = [1.1002, 1.0999, 1.10005, 1.100075, 1.1001]"
  by (auto simp add: TickSimulator_init_def preparar_vela_ejemplo generar_ticks_para_vela_def
      Let_def azar_ejemplo_def linspace_def clip_def upt_0_5)

subsection \<open>Prices stay inside the candle\<close>

text \<open>
  Claim C6. Let the simulator hold the prepared rows of \<open>velas\<close> and let candle \<open>k\<close>
  satisfy \<open>low \<le> high\<close> (the invariant of a candle). Every tick that
  \<open>generar_ticks_para_vela\<close> returns for candle \<open>k\<close> has its bid between the
  candle's low and high, and its ask is the bid plus the simulator's spread. When all
  candles satisfy \<open>low \<le> high\<close> the generation does return ticks (it raises only for
  a negative volatility).
\<close>

theorem C6_ticks_en_rango:
  assumes "datos_velas s = preparar_datos velas"
    and "k < length velas"
    and "vela_bajo (velas ! k) \<le> vela_alto (velas ! k)"
  shows "(\<forall>ticks t. generar_ticks_para_vela az s k = Inr ticks \<and> t \<in> set ticks \<longrightarrow>
            vela_bajo (velas ! k) \<le> tick_bid t \<and> tick_bid t \<le> vela_alto (velas ! k)
            \<and> tick_ask t = tick_bid t + sim_spread s)
       \<and> ((\<forall>v\<in>set velas. vela_bajo v \<le> vela_alto v) \<longrightarrow>
            (\<exists>ticks. generar_ticks_para_vela az s k = Inr ticks \<and> ticks \<noteq> []))"
proof (intro conjI allI impI)
  fix ticks t
  assume h: "generar_ticks_para_vela az s k = Inr ticks \<and> t \<in> set ticks"
  have k: "k < length (datos_velas s)" using assms(1,2) by simp
  have lo: "vela_bajo (datos_velas s ! k) = vela_bajo (velas ! k)"
    and hi: "vela_alto (datos_velas s ! k) = vela_alto (velas ! k)"
    using assms(1,2) by (simp_all add: preparar_datos_nth)
  show "vela_bajo (velas ! k) \<le> tick_bid t" 
    using generar_ticks_en_rango(2)[OF k, of az ticks t] h assms(3) lo hi by simp
  show "tick_bid t \<le> vela_alto (velas ! k)"
    using generar_ticks_en_rango(1)[OF k, of az ticks t] h hi by simp
  show "tick_ask t = tick_bid t + sim_spread s"
    using generar_ticks_en_rango(3)[OF k, of az ticks t] h by simp
next
  assume v: "\<forall>v\<in>set velas. vela_bajo v \<le> vela_alto v"
  have k: "k < length (datos_velas s)" using assms(1,2) by simp
  have "0 \<le> vela_volatilidad (datos_velas s ! k)"
    using volatilidad_no_negativa[OF v assms(2)] assms(1) by simp
  then obtain ticks where t: "generar_ticks_para_vela az s k = Inr ticks"
    and l: "length ticks = vela_ticks_por_vela (datos_velas s ! k)"
    using generar_ticks_exito[OF k, of az] by blast
  have "5 \<le> length ticks" using l ticks_por_vela_acotado(1)[OF assms(2)] assms(1) by simp
  then have "ticks \<noteq> []" by auto
  then show "\<exists>ticks. generar_ticks_para_vela az s k = Inr ticks \<and> ticks \<noteq> []"
    using t by blast
qed

text \<open>
  The example candle (low 1.0999, high 1.1002): the noise of the first two ticks is
  clamped to the high and to the low, and every ask is the bid plus 0.0002.
\<close>

theorem C6_ticks_en_rango_witness:
  "datos_velas (TickSimulator_init [vela_ejemplo] 0.0002) = preparar_datos [vela_ejemplo]
   \<and> vela_bajo ([vela_ejemplo] ! 0) = 1.0999 \<and> vela_alto ([vela_ejemplo] ! 0) = 1.1002
   \<and> (\<exists>ticks. generar_ticks_para_vela azar_ejemplo (TickSimulator_init [vela_ejemplo] 0.0002) 0
                 = Inr ticks
          \<and> map tick_bid ticks = [1.1002, 1.0999, 1.10005, 1.100075, 1.1001]
          \<and> map tick_ask ticks = [1.1004, 1.1001, 1.10025, 1.100275, 1.1003])"
proof -
  let ?s = "TickSimulator_init [vela_ejemplo] 0.0002"
  have d: "datos_velas ?s = preparar_datos [vela_ejemplo]"
    by (simp add: TickSimulator_init_def)
  have lohi: "vela_bajo ([vela_ejemplo] ! 0) = 1.0999" "vela_alto ([vela_ejemplo] ! 0) = 1.1002"
    by (simp_all add: vela_ejemplo_def)
  have k0: "0 < length [vela_ejemplo]" by simp
  have le: "vela_bajo ([vela_ejemplo] ! 0) \<le> vela_alto ([vela_ejemplo] ! 0)"
    by (simp add: vela_ejemplo_def)
  have todas: "\<forall>v\<in>set [vela_ejemplo]. vela_bajo v \<le> vela_alto v"
    by (simp add: vela_ejemplo_def)
  note c6 = C6_ticks_en_rango[OF d k0 le, of azar_ejemplo]
  from c6 todas obtain ticks where t: "generar_ticks_para_vela azar_ejemplo ?s 0 = Inr ticks"
    by blast
  have bids: "map tick_bid ticks = [1.1002, 1.0999, 1.10005, 1.100075, 1.1001]"
    using t by (rule bids_vela_ejemplo)
  have sp: "sim_spread ?s = 0.0002" by (simp add: TickSimulator_init_def)
  have "\<forall>t \<in> set ticks. tick_ask t = tick_bid t + 0.0002"
    using c6 t sp by auto
  then have "map tick_ask ticks = map (\<lambda>b. b + 0.0002) (map tick_bid ticks)"
    by simp
  then have asks: "map tick_ask ticks = [1.1004, 1.1001, 1.10025, 1.100275, 1.1003]"
    unfolding bids by simp
  have ex: "\<exists>ticks. generar_ticks_para_vela azar_ejemplo ?s 0 = Inr ticks
          \<and> map tick_bid ticks = [1.1002, 1.0999, 1.10005, 1.100075, 1.1001]
          \<and> map tick_ask ticks = [1.1004, 1.1001, 1.10025, 1.100275, 1.1003]"
    by (rule exI[of _ ticks]) (rule conjI t bids asks)+
  show ?thesis by (rule conjI d lohi ex)+
qed

subsection \<open>Number of ticks of a candle\<close>

text \<open>
  Claim C7. For every candle of a prepared set the column \<open>ticks_por_vela\<close> lies in
  \<open>[5, 100]\<close>, and a list of ticks generated for the candle has that many elements;
  when all candles satisfy \<open>low \<le> high\<close> the generation succeeds for each of them.
  On an empty set the first \<open>obtener_siguiente_tick\<close> returns \<open>None\<close>. On a set of one
  candle with \<open>low \<le> high\<close> there is a number \<open>n\<close> in \<open>[5, 100]\<close> such that the first
  \<open>n\<close> calls return a tick and every later call returns \<open>None\<close>.
\<close>

theorem C7_ticks_por_vela:
  "(\<forall>k<length velas. 5 \<le> vela_ticks_por_vela (preparar_datos velas ! k)
                     \<and> vela_ticks_por_vela (preparar_datos velas ! k) \<le> 100)
   \<and> (\<forall>k ticks. k < length velas
         \<and> generar_ticks_para_vela az (TickSimulator_init velas sp) k = Inr ticks
         \<longrightarrow> 5 \<le> length ticks \<and> length ticks \<le> 100)
   \<and> ((\<forall>v\<in>set velas. vela_bajo v \<le> vela_alto v) \<longrightarrow>
        (\<forall>k<length velas. \<exists>ticks.
           generar_ticks_para_vela az (TickSimulator_init velas sp) k = Inr ticks
           \<and> 5 \<le> length ticks \<and> length ticks \<le> 100))
   \<and> obtener_siguiente_tick az (TickSimulator_init [] sp) = (Inr None, TickSimulator_init [] sp)
   \<and> (vela_bajo v \<le> vela_alto v \<longrightarrow>
        (let s0 = TickSimulator_init [v] sp;
             n = vela_ticks_por_vela (preparar_datos [v] ! 0);
             paso = (\<lambda>s. snd (obtener_siguiente_tick az s))
         in 5 \<le> n \<and> n \<le> 100
            \<and> (\<forall>k<n. \<exists>t. fst (obtener_siguiente_tick az ((paso ^^ k) s0)) = Inr (Some t))
            \<and> (\<forall>k\<ge>n. fst (obtener_siguiente_tick az ((paso ^^ k) s0)) = Inr None)))"
proof (intro conjI)
  show "\<forall>k<length velas. 5 \<le> vela_ticks_por_vela (preparar_datos velas ! k)
                     \<and> vela_ticks_por_vela (preparar_datos velas ! k) \<le> 100"
    using ticks_por_vela_acotado by blast
next
  show "\<forall>k ticks. k < length velas
         \<and> generar_ticks_para_vela az (TickSimulator_init velas sp) k = Inr ticks
         \<longrightarrow> 5 \<le> length ticks \<and> length ticks \<le> 100"
  proof (intro allI impI)
    fix k ticks
    assume h: "k < length velas
         \<and> generar_ticks_para_vela az (TickSimulator_init velas sp) k = Inr ticks"
    then have "length ticks = vela_ticks_por_vela (preparar_datos velas ! k)"
      by (auto simp add: generar_ticks_para_vela_def TickSimulator_init_def Let_def
          split: if_splits)
    then show "5 \<le> length ticks \<and> length ticks \<le> 100"
      using ticks_por_vela_acotado h by simp
  qed
next
  show "(\<forall>v\<in>set velas. vela_bajo v \<le> vela_alto v) \<longrightarrow>
        (\<forall>k<length velas. \<exists>ticks.
           generar_ticks_para_vela az (TickSimulator_init velas sp) k = Inr ticks
           \<and> 5 \<le> length ticks \<and> length ticks \<le> 100)"
  proof (intro allI impI)
    fix k
    assume v: "\<forall>v\<in>set velas. vela_bajo v \<le> vela_alto v" and k: "k < length velas"
    let ?s = "TickSimulator_init velas sp"
    have d: "datos_velas ?s = preparar_datos velas" by (simp add: TickSimulator_init_def)
    have "0 \<le> vela_volatilidad (datos_velas ?s ! k)"
      using volatilidad_no_negativa[OF v k] d by simp
    moreover have "k < length (datos_velas ?s)" using k d by simp
    ultimately obtain ticks where "generar_ticks_para_vela az ?s k = Inr ticks"
      and "length ticks = vela_ticks_por_vela (datos_velas ?s ! k)"
      using generar_ticks_exito[of k ?s az] by blast
    then show "\<exists>ticks. generar_ticks_para_vela az ?s k = Inr ticks
           \<and> 5 \<le> length ticks \<and> length ticks \<le> 100"
      using ticks_por_vela_acotado[OF k] d by auto
  qed
next
  show "obtener_siguiente_tick az (TickSimulator_init [] sp) = (Inr None, TickSimulator_init [] sp)"
    by (intro obtener_agotado) (simp add: TickSimulator_init_def)
next
  show "vela_bajo v \<le> vela_alto v \<longrightarrow>
        (let s0 = TickSimulator_init [v] sp;
             n = vela_ticks_por_vela (preparar_datos [v] ! 0);
             paso = (\<lambda>s. snd (obtener_siguiente_tick az s))
         in 5 \<le> n \<and> n \<le> 100
            \<and> (\<forall>k<n. \<exists>t. fst (obtener_siguiente_tick az ((paso ^^ k) s0)) = Inr (Some t))
            \<and> (\<forall>k\<ge>n. fst (obtener_siguiente_tick az ((paso ^^ k) s0)) = Inr None))"
  proof
    assume v: "vela_bajo v \<le> vela_alto v"
    let ?s0 = "TickSimulator_init [v] sp"
    let ?n = "vela_ticks_por_vela (preparar_datos [v] ! 0)"
    have d: "datos_velas ?s0 = preparar_datos [v]" by (simp add: TickSimulator_init_def)
    have l: "length (datos_velas ?s0) = 1" using d by simp
    have i0: "indice_actual ?s0 = 0" and a0: "ticks_actuales ?s0 = None"
      and g0: "ticks_generados ?s0 = []"
      by (simp_all add: TickSimulator_init_def)
    have n: "5 \<le> ?n" "?n \<le> 100"
      using ticks_por_vela_acotado[of 0 "[v]"] by simp_all
    have "0 \<le> vela_volatilidad (datos_velas ?s0 ! 0)"
      using volatilidad_no_negativa[of "[v]" 0] v d by simp
    then obtain ts where gen: "generar_ticks_para_vela az ?s0 0 = Inr ts"
      and lts: "length ts = ?n"
      using generar_ticks_exito[of 0 ?s0 az] l d by auto
    have ne: "ts \<noteq> []" using lts n by auto
    have a: "\<forall>k<?n. \<exists>t. fst (obtener_siguiente_tick az
                (((\<lambda>s. snd (obtener_siguiente_tick az s)) ^^ k) ?s0)) = Inr (Some t)"
      using una_vela_entrega[OF l i0 a0 g0 gen] lts by auto
    have b: "\<forall>k\<ge>?n. fst (obtener_siguiente_tick az
                (((\<lambda>s. snd (obtener_siguiente_tick az s)) ^^ k) ?s0)) = Inr None"
      using una_vela_agotada[OF l i0 a0 g0 gen ne] lts by auto
    show "let s0 = TickSimulator_init [v] sp;
             n = vela_ticks_por_vela (preparar_datos [v] ! 0);
             paso = (\<lambda>s. snd (obtener_siguiente_tick az s))
         in 5 \<le> n \<and> n \<le> 100
            \<and> (\<forall>k<n. \<exists>t. fst (obtener_siguiente_tick az ((paso ^^ k) s0)) = Inr (Some t))
            \<and> (\<forall>k\<ge>n. fst (obtener_siguiente_tick az ((paso ^^ k) s0)) = Inr None)"
      unfolding Let_def using n a b by blast
  qed
qed

text \<open>
  The example candle has five ticks: the fifth call still returns a tick, the sixth
  returns \<open>None\<close>; on the empty set the first call returns \<open>None\<close>.
\<close>

theorem C7_ticks_por_vela_witness:
  "vela_bajo vela_ejemplo \<le> vela_alto vela_ejemplo
   \<and> vela_ticks_por_vela (preparar_datos [vela_ejemplo] ! 0) = 5
   \<and> (\<exists>ticks. generar_ticks_para_vela azar_ejemplo (TickSimulator_init [vela_ejemplo] 0.0002) 0
         = Inr ticks \<and> length ticks = 5)
   \<and> (\<exists>t. fst (obtener_siguiente_tick azar_ejemplo
         (((\<lambda>s. snd (obtener_siguiente_tick azar_ejemplo s)) ^^ 4)
            (TickSimulator_init [vela_ejemplo] 0.0002))) = Inr (Some t))
   \<and> fst (obtener_siguiente_tick azar_ejemplo
         (((\<lambda>s. snd (obtener_siguiente_tick azar_ejemplo s)) ^^ 5)
            (TickSimulator_init [vela_ejemplo] 0.0002))) = Inr None
   \<and> fst (obtener_siguiente_tick azar_ejemplo (TickSimulator_init [] 0.0002)) = Inr None"
proof -
  have v: "vela_bajo vela_ejemplo \<le> vela_alto vela_ejemplo"
    by (simp add: vela_ejemplo_def)
  have n: "vela_ticks_por_vela (preparar_datos [vela_ejemplo] ! 0) = 5"
    by (simp add: preparar_vela_ejemplo)
  note c7 = C7_ticks_por_vela[of "[vela_ejemplo]" azar_ejemplo "0.0002" vela_ejemplo]
  have gen: "\<exists>ticks. generar_ticks_para_vela azar_ejemplo
               (TickSimulator_init [vela_ejemplo] 0.0002) 0 = Inr ticks \<and> length ticks = 5"
    by (simp add: TickSimulator_init_def preparar_vela_ejemplo generar_ticks_para_vela_def
        Let_def)
  have una: "(\<forall>k<5. \<exists>t. fst (obtener_siguiente_tick azar_ejemplo
         (((\<lambda>s. snd (obtener_siguiente_tick azar_ejemplo s)) ^^ k)
            (TickSimulator_init [vela_ejemplo] 0.0002))) = Inr (Some t))
      \<and> (\<forall>k\<ge>5. fst (obtener_siguiente_tick azar_ejemplo
         (((\<lambda>s. snd (obtener_siguiente_tick azar_ejemplo s)) ^^ k)
            (TickSimulator_init [vela_ejemplo] 0.0002))) = Inr None)"
    using c7 v n unfolding Let_def by simp
  have vacia: "fst (obtener_siguiente_tick azar_ejemplo (TickSimulator_init [] 0.0002)) = Inr None"
    using c7 by simp
  have k4: "\<exists>t. fst (obtener_siguiente_tick azar_ejemplo
         (((\<lambda>s. snd (obtener_siguiente_tick azar_ejemplo s)) ^^ 4)
            (TickSimulator_init [vela_ejemplo] 0.0002))) = Inr (Some t)"
    using una by simp
  have k5: "fst (obtener_siguiente_tick azar_ejemplo
         (((\<lambda>s. snd (obtener_siguiente_tick azar_ejemplo s)) ^^ 5)
            (TickSimulator_init [vela_ejemplo] 0.0002))) = Inr None"
    using una by simp
  show ?thesis by (rule conjI v n gen k4 k5 vacia)+
qed

section \<open>Properties of the driver\<close>

subsection \<open>Close requests of a tick\<close>

lemma verificar_sl_tp_spec:
  "verificar_sl_tp p tk m =
     (case spec_cierre p (tick_last tk) of
        None \<Rightarrow> m
      | Some e \<Rightarrow> (broker_cerrar_orden (pos_ticket p) m)\<lparr>registro := registro m @ [e]\<rparr>)"
  by (simp add: verificar_sl_tp_def spec_cierre_def Let_def split: option.splits)

lemma spec_cierre_precio_actual [simp]:
  "spec_cierre (p\<lparr>pos_precio_actual := x\<rparr>) price = spec_cierre p price"
  by (simp add: spec_cierre_def split: option.splits)

lemma length_historial_cerrar_orden:
  "length (historial (snd (cerrar_orden t v b))) \<le> Suc (length (historial b))"
  by (simp add: cerrar_orden_def Let_def split: option.splits prod.splits)

lemma registro_verificar:
  "registro (verificar_sl_tp p tk m) =
     registro m @ (case spec_cierre p (tick_last tk) of None \<Rightarrow> [] | Some e \<Rightarrow> [e])"
  by (simp add: verificar_sl_tp_spec broker_cerrar_orden_def split: option.splits)

lemma historial_verificar:
  "length (historial (broker (verificar_sl_tp p tk m)))
     \<le> length (historial (broker m))
        + length (case spec_cierre p (tick_last tk) of None \<Rightarrow> [] | Some e \<Rightarrow> [e])"
  using length_historial_cerrar_orden[of "pos_ticket p" None "broker m"]
  by (simp add: verificar_sl_tp_spec broker_cerrar_orden_def split: option.splits)

lemma registro_asignar [simp]: "registro (asignar_precio_actual r x m) = registro m"
  by (simp add: asignar_precio_actual_def split: option.splits)

lemma historial_asignar [simp]:
  "historial (broker (asignar_precio_actual r x m)) = historial (broker m)"
  by (simp add: asignar_precio_actual_def split: option.splits)

lemma registro_bucle:
  "registro (bucle_posiciones tk xs m) = registro m @ spec_cierres_tick tk (map snd xs)"
proof (induction xs arbitrary: m)
  case Nil
  then show ?case by (simp add: spec_cierres_tick_def)
next
  case (Cons x xs)
  obtain r p where x: "x = (r, p)" by (cases x)
  show ?case
    using Cons.IH by (simp add: x spec_cierres_tick_def registro_verificar)
qed

lemma historial_bucle:
  "length (historial (broker (bucle_posiciones tk xs m)))
     \<le> length (historial (broker m)) + length (spec_cierres_tick tk (map snd xs))"
proof (induction xs arbitrary: m)
  case Nil
  then show ?case by (simp add: spec_cierres_tick_def)
next
  case (Cons x xs)
  obtain r p where x: "x = (r, p)" by (cases x)
  show ?case
  proof (cases "Some (pos_simbolo p) = tick_simbolo tk")
    case True
    let ?m1 = "verificar_sl_tp (p\<lparr>pos_precio_actual := tick_last tk\<rparr>) tk
                 (asignar_precio_actual r (tick_last tk) m)"
    have "length (historial (broker (bucle_posiciones tk xs ?m1)))
            \<le> length (historial (broker ?m1)) + length (spec_cierres_tick tk (map snd xs))"
      by (rule Cons.IH)
    moreover have "length (historial (broker ?m1))
            \<le> length (historial (broker m))
               + length (case spec_cierre p (tick_last tk) of None \<Rightarrow> [] | Some e \<Rightarrow> [e])"
      using historial_verificar[of "p\<lparr>pos_precio_actual := tick_last tk\<rparr>" tk
          "asignar_precio_actual r (tick_last tk) m"] by simp
    ultimately show ?thesis using True by (simp add: x spec_cierres_tick_def)
  next
    case False
    then show ?thesis using Cons.IH[of m] by (simp add: x spec_cierres_tick_def)
  qed
qed

lemma length_spec_cierres_tick:
  "length (spec_cierres_tick tk ps)
     \<le> length (filter (\<lambda>p. Some (pos_simbolo p) = tick_simbolo tk) ps)"
  by (induction ps) (simp_all add: spec_cierres_tick_def split: option.splits)

text \<open>
  The rule of \<open>_verificar_sl_tp\<close> and of the loop that calls it, request by request.
  For a position with both levels set, a BUY whose price is at or below the stop-loss
  issues one close request for its ticket, otherwise one when the price is at or above
  the take-profit; a SELL is mirrored; with a level unset no request is issued. A
  check issues at most one request, and the requests of the loop over a snapshot are
  those of the specification's rule over the positions of the tick's symbol, in order.
\<close>

lemma regla_sl_tp:
  "(pos_stop_loss p = Some sl \<and> pos_take_profit p = Some tp \<and> pos_tipo p = ''COMPRA''
      \<and> tick_last tk \<le> sl \<longrightarrow>
      verificar_sl_tp p tk m =
        (broker_cerrar_orden (pos_ticket p) m)
          \<lparr>registro := registro m @ [SL_alcanzado (pos_ticket p)]\<rparr>)
   \<and> (pos_stop_loss p = Some sl \<and> pos_take_profit p = Some tp \<and> pos_tipo p = ''COMPRA''
      \<and> \<not> tick_last tk \<le> sl \<and> tick_last tk \<ge> tp \<longrightarrow>
      verificar_sl_tp p tk m =
        (broker_cerrar_orden (pos_ticket p) m)
          \<lparr>registro := registro m @ [TP_alcanzado (pos_ticket p)]\<rparr>)
   \<and> (pos_stop_loss p = Some sl \<and> pos_take_profit p = Some tp \<and> pos_tipo p = ''COMPRA''
      \<and> \<not> tick_last tk \<le> sl \<and> \<not> tick_last tk \<ge> tp \<longrightarrow>
      verificar_sl_tp p tk m = m)
   \<and> (pos_stop_loss p = Some sl \<and> pos_take_profit p = Some tp \<and> pos_tipo p \<noteq> ''COMPRA''
      \<and> tick_last tk \<ge> sl \<longrightarrow>
      verificar_sl_tp p tk m =
        (broker_cerrar_orden (pos_ticket p) m)
          \<lparr>registro := registro m @ [SL_alcanzado (pos_ticket p)]\<rparr>)
   \<and> (pos_stop_loss p = Some sl \<and> pos_take_profit p = Some tp \<and> pos_tipo p \<noteq> ''COMPRA''
      \<and> \<not> tick_last tk \<ge> sl \<and> tick_last tk \<le> tp \<longrightarrow>
      verificar_sl_tp p tk m =
        (broker_cerrar_orden (pos_ticket p) m)
          \<lparr>registro := registro m @ [TP_alcanzado (pos_ticket p)]\<rparr>)
   \<and> (pos_stop_loss p = Some sl \<and> pos_take_profit p = Some tp \<and> pos_tipo p \<noteq> ''COMPRA''
      \<and> \<not> tick_last tk \<ge> sl \<and> \<not> tick_last tk \<le> tp \<longrightarrow>
      verificar_sl_tp p tk m = m)
   \<and> (pos_stop_loss p = None \<or> pos_take_profit p = None \<longrightarrow> verificar_sl_tp p tk m = m)
   \<and> verificar_sl_tp p tk m =
        (case spec_cierre p (tick_last tk) of
           None \<Rightarrow> m
         | Some e \<Rightarrow> (broker_cerrar_orden (pos_ticket p) m)\<lparr>registro := registro m @ [e]\<rparr>)
   \<and> length (historial (broker (verificar_sl_tp p tk m))) \<le> Suc (length (historial (broker m)))
   \<and> registro (bucle_posiciones tk xs m) = registro m @ spec_cierres_tick tk (map snd xs)
   \<and> length (spec_cierres_tick tk (map snd xs))
        \<le> length (filter (\<lambda>p. Some (pos_simbolo p) = tick_simbolo tk) (map snd xs))
   \<and> length (historial (broker (bucle_posiciones tk xs m)))
        \<le> length (historial (broker m)) + length (spec_cierres_tick tk (map snd xs))"
proof (intro conjI)
  show "length (historial (broker (verificar_sl_tp p tk m))) \<le> Suc (length (historial (broker m)))"
    using historial_verificar[of p tk m] by (simp split: option.splits)
  show "registro (bucle_posiciones tk xs m) = registro m @ spec_cierres_tick tk (map snd xs)"
    by (rule registro_bucle)
  show "length (spec_cierres_tick tk (map snd xs))
        \<le> length (filter (\<lambda>p. Some (pos_simbolo p) = tick_simbolo tk) (map snd xs))"
    by (rule length_spec_cierres_tick)
  show "length (historial (broker (bucle_posiciones tk xs m)))
        \<le> length (historial (broker m)) + length (spec_cierres_tick tk (map snd xs))"
    by (rule historial_bucle)
  show "verificar_sl_tp p tk m =
        (case spec_cierre p (tick_last tk) of
           None \<Rightarrow> m
         | Some e \<Rightarrow> (broker_cerrar_orden (pos_ticket p) m)\<lparr>registro := registro m @ [e]\<rparr>)"
    by (rule verificar_sl_tp_spec)
qed (auto simp add: verificar_sl_tp_def Let_def split: option.splits)

text \<open>
  The names in \<open>refs\<close> stay aligned with the venue's list when a request closes a
  position.
\<close>

lemma buscar_posicion_indice:
  "buscar_posicion t ps i = Some (j, p) \<Longrightarrow> i \<le> j \<and> j < i + length ps"
proof (induction ps arbitrary: i)
  case Nil
  then show ?case by simp
next
  case (Cons a ps)
  show ?case
  proof (cases "pos_ticket a = t")
    case True
    then show ?thesis using Cons.prems by simp
  next
    case False
    then have "buscar_posicion t ps (Suc i) = Some (j, p)" using Cons.prems by simp
    then have "Suc i \<le> j \<and> j < Suc i + length ps" by (rule Cons.IH)
    then show ?thesis by simp
  qed
qed

lemma refs_broker_cerrar_orden:
  "length (refs m) = length (posiciones (broker m)) \<Longrightarrow>
   length (refs (broker_cerrar_orden t m)) = length (posiciones (broker (broker_cerrar_orden t m)))"
  by (auto simp add: broker_cerrar_orden_def cerrar_orden_def pop_def Let_def
      split: option.splits dest: buscar_posicion_indice)

subsection \<open>No close on a tick\<close>

text \<open>
  With a position open the refresh at the start of \<open>_actualizar_precios_posiciones\<close>
  raises, so neither the price assignment nor \<open>_verificar_sl_tp\<close> is reached; on a
  venue without positions the loop has nothing to visit. And against a tick without the
  key \<open>simbolo\<close>, as the ticks of \<open>TickSimulator\<close> are, the loop skips every position.
\<close>

lemma actualizar_precios_NameError:
  "posiciones (broker m) \<noteq> [] \<Longrightarrow>
   actualizar_precios_posiciones tk m = (Inl NameError, m)"
  by (simp add: actualizar_precios_posiciones_def obtener_posiciones_abiertas_NameError)

lemma actualizar_precios_sin_posiciones:
  "posiciones (broker m) = [] \<Longrightarrow>
   registro (snd (actualizar_precios_posiciones tk m)) = registro m
   \<and> historial (broker (snd (actualizar_precios_posiciones tk m))) = historial (broker m)"
  by (simp add: actualizar_precios_posiciones_def obtener_posiciones_abiertas_vacia)

lemma bucle_posiciones_sin_simbolo:
  "tick_simbolo tk = None \<Longrightarrow> bucle_posiciones tk xs m = m"
  by (induction xs arbitrary: m) auto

lemma generar_ticks_sin_simbolo:
  "generar_ticks_para_vela az s k = Inr ticks \<Longrightarrow> t \<in> set ticks \<Longrightarrow> tick_simbolo t = None"
  by (auto simp add: generar_ticks_para_vela_def Let_def split: if_splits)

text \<open>
  Claim C5 fails on the code. On a fresh venue place a BUY of EURUSD with stop-loss
  1.0980 and take-profit 1.1040, and let the driver process a tick of EURUSD whose
  last price is 1.0975. The position is of the tick's symbol, both levels are set and
  the price is at or below the stop-loss, so the rule asks for one close of ticket
  1000. The driver raises \<open>NameError\<close> instead (as it does for the same tick without
  the key \<open>simbolo\<close>): no close is requested, the position stays open and the ledger
  stays empty.
\<close>

theorem C5_sin_cierre:
  "let b0 = BrokerSimulado_init 10000 2.5 2;
       b1 = snd (colocar_orden
                  ((orden_ejemplo ''COMPRA'' 0.1 (Some 1.10000))
                     \<lparr>ord_stop_loss := Some 1.0980, ord_take_profit := Some 1.1040\<rparr>) b0);
       tk = tick_ejemplo 1.0975;
       m = (motor_ejemplo [])\<lparr>broker := b1\<rparr>;
       r = actualizar_precios_posiciones tk m
   in map pos_ticket (posiciones b1) = [1000]
      \<and> map pos_tipo (posiciones b1) = [''COMPRA'']
      \<and> map pos_stop_loss (posiciones b1) = [Some 1.0980]
      \<and> map pos_take_profit (posiciones b1) = [Some 1.1040]
      \<and> map (\<lambda>p. Some (pos_simbolo p)) (posiciones b1) = [tick_simbolo tk]
      \<and> tick_last tk \<le> 1.0980
      \<and> spec_cierres_tick tk (posiciones b1) = [SL_alcanzado 1000]
      \<and> fst r = Inl NameError
      \<and> fst (actualizar_precios_posiciones (tk\<lparr>tick_simbolo := None\<rparr>) m) = Inl NameError
      \<and> registro (snd r) = []
      \<and> posiciones (broker (snd r)) = posiciones b1
      \<and> historial (broker (snd r)) = []"
  by (simp add: Let_def orden_ejemplo_def tick_ejemplo_def motor_ejemplo_def
      BrokerSimulado_init_def colocar_orden_def precio_or_def
      actualizar_precios_posiciones_def obtener_posiciones_abiertas_def
      np_random_uniform_def spec_cierres_tick_def spec_cierre_def)

section \<open>Properties of the metrics\<close>

text \<open>
  Claim C9. With an empty ledger of closed trades \<open>_calcular_metricas\<close> stores the
  dictionary of defaults (it does not take the \<open>except\<close> branch, which would store
  the empty dictionary), and so does the finalization when the ledger is empty after
  the venue has closed its positions. In that dictionary \<open>total_operaciones\<close>,
  \<open>win_rate\<close>, \<open>beneficio_total\<close>, \<open>drawdown_maximo\<close>, \<open>sharpe_ratio\<close> and
  \<open>expectancy\<close> are 0.
\<close>

theorem C9_metricas_sin_operaciones:
  "(operaciones (resultados m) = [] \<longrightarrow>
      metricas (resultados (calcular_metricas m)) = metricas_sin_operaciones)
   \<and> (historial (cerrar (broker m)) = [] \<longrightarrow>
      metricas (resultados (finalizar_backtest m)) = metricas_sin_operaciones)
   \<and> map_of metricas_sin_operaciones ''total_operaciones'' = Some 0
   \<and> map_of metricas_sin_operaciones ''win_rate'' = Some 0
   \<and> map_of metricas_sin_operaciones ''beneficio_total'' = Some 0
   \<and> map_of metricas_sin_operaciones ''drawdown_maximo'' = Some 0
   \<and> map_of metricas_sin_operaciones ''sharpe_ratio'' = Some 0
   \<and> map_of metricas_sin_operaciones ''expectancy'' = Some 0"
  by (simp add: calcular_metricas_def finalizar_backtest_def metricas_sin_operaciones_def Let_def)

text \<open>
  A driver with capital 10000 whose venue never traded: the finalization stores the
  defaults.
\<close>

theorem C9_metricas_sin_operaciones_witness:
  "let m = \<lparr>capital_inicial = 10000, broker = BrokerSimulado_init 10000 2.5 2,
            resultados = \<lparr>operaciones = [], metricas = [], equity_curve = [], drawdowns = []\<rparr>,
            refs = [], registro = []\<rparr>
   in operaciones (resultados m) = [] \<and> historial (cerrar (broker m)) = []
      \<and> metricas (resultados (calcular_metricas m)) = metricas_sin_operaciones
      \<and> metricas (resultados (finalizar_backtest m)) = metricas_sin_operaciones
      \<and> map_of (metricas (resultados (finalizar_backtest m))) ''win_rate'' = Some 0
      \<and> map_of (metricas (resultados (finalizar_backtest m))) ''sharpe_ratio'' = Some 0"
  using C9_metricas_sin_operaciones[of
      "\<lparr>capital_inicial = 10000, broker = BrokerSimulado_init 10000 2.5 2,
        resultados = \<lparr>operaciones = [], metricas = [], equity_curve = [], drawdowns = []\<rparr>,
        refs = [], registro = []\<rparr>"]
  by (simp add: BrokerSimulado_init_def cerrar_def Let_def)

end
